theory Spec2Isabelle
  imports Main "HOL-Library.Word" "HOL-Library.Sublist"
begin

section \<open>The kernel-block-devices plugin (src/plugins/kbd.c)\<close>

text \<open>
  The plugin drives the kernel through libkmod, sysfs pseudo-files, one external tool,
  \<open>glob\<close>, \<open>access\<close> and \<open>readlink\<close>. None of these is computed by the plugin, so each
  is a field of an environment record: the answer the outside world gives to a call, as a
  function of the calls made so far (the trace) and of the call's arguments. The plugin's
  own functions thread a state holding that trace and the caller's \<open>GError *\<close> slot.
\<close>

subsection \<open>Errors\<close>

text \<open>
  Modelled from the spec: the enumerators of the \<open>BD_KBD_ERROR\<close> domain, which kbd.h
  declares and kbd.c uses by name (section 7 of the specification lists the kinds). Only
  their being distinct matters.
\<close>

datatype bd_kbd_error =
    BD_KBD_ERROR_KMOD_INIT_FAIL
  | BD_KBD_ERROR_MODULE_FAIL
  | BD_KBD_ERROR_MODULE_NOEXIST
  | BD_KBD_ERROR_BCACHE_PARSE
  | BD_KBD_ERROR_BCACHE_SETUP_FAIL
  | BD_KBD_ERROR_BCACHE_UUID
  | BD_KBD_ERROR_BCACHE_NOT_ATTACHED
  | BD_KBD_ERROR_BCACHE_DETACH_FAIL

text \<open>
  A \<open>GError\<close> has a domain, a code and a message. The plugin's own errors are in the
  domain \<open>BD_KBD_ERROR\<close>; errors made by GLib's file functions or by the exec utility
  are in a foreign domain (named by a string) with an integer code.
\<close>

datatype error_kind = Kbd bd_kbd_error | Foreign string int

datatype gerror = GError (kind: error_kind) (message: string)

text \<open>
  What a function outside the plugin reports when it fails: the name of its error domain,
  its code and its message. Such an error is never in the domain \<open>BD_KBD_ERROR\<close>.
\<close>

type_synonym foreign_error = "string \<times> int \<times> string"

definition foreign :: "foreign_error \<Rightarrow> gerror" where
  "foreign x = (case x of (d, c, m) \<Rightarrow> GError (Foreign d c) m)"

subsection \<open>Calls to the outside world, and the state\<close>

datatype call =
    Kmod_new
  | Kmod_module_new_from_name string
  | Kmod_module_get_path string
  | Kmod_module_insert_module string string
  | Kmod_module_new_from_loaded
  | Kmod_module_remove_module string
  | G_io_channel_new_file string
  | G_io_channel_write_chars string string
  | G_io_channel_shutdown string
  | Bd_utils_exec_and_capture_output "string list"
  | Glob string
  | Access string
  | G_file_read_link string

text \<open>
  The file functions of GLib answer \<open>None\<close> for success (\<open>G_IO_STATUS_NORMAL\<close>, a
  channel that is not \<open>NULL\<close>) and \<open>Some x\<close> for a failure that reports the error \<open>x\<close>;
  \<open>g_file_read_link\<close> answers the link's target or the error it reports.
  \<open>kmod_new\<close> and \<open>kmod_module_get_path\<close> answer whether the pointer they return is
  not \<open>NULL\<close>; the other libkmod functions, \<open>glob\<close> and \<open>access\<close> answer their integer
  return value; \<open>kmod_module_new_from_loaded\<close> and \<open>glob\<close> also answer the names they
  list.

  \<open>bd_utils_exec_and_capture_output\<close> is a function of the utility library, which is
  not among the sources, so it is a field like the others: it runs a command and answers
  its standard output, or the error it reports when the command cannot be run or fails.
\<close>

record env =
  kmod_new :: "call list \<Rightarrow> bool"
  kmod_module_new_from_name :: "call list \<Rightarrow> string \<Rightarrow> int"
  kmod_module_get_path :: "call list \<Rightarrow> string \<Rightarrow> bool"
  kmod_module_insert_module :: "call list \<Rightarrow> string \<Rightarrow> string \<Rightarrow> int"
  kmod_module_new_from_loaded :: "call list \<Rightarrow> int \<times> string list"
  kmod_module_remove_module :: "call list \<Rightarrow> string \<Rightarrow> int"
  g_io_channel_new_file :: "call list \<Rightarrow> string \<Rightarrow> foreign_error option"
  g_io_channel_write_chars :: "call list \<Rightarrow> string \<Rightarrow> string \<Rightarrow> foreign_error option"
  g_io_channel_shutdown :: "call list \<Rightarrow> string \<Rightarrow> foreign_error option"
  bd_utils_exec_and_capture_output :: "call list \<Rightarrow> string list \<Rightarrow> foreign_error + string"
  glob :: "call list \<Rightarrow> string \<Rightarrow> int \<times> string list"
  access :: "call list \<Rightarrow> string \<Rightarrow> int"
  g_file_read_link :: "call list \<Rightarrow> string \<Rightarrow> foreign_error + string"
  strerror :: "int \<Rightarrow> string"

record state =
  trace :: "call list"
  err :: "gerror option"

definition do_call :: "call \<Rightarrow> state \<Rightarrow> state" where
  "do_call c s = s\<lparr>trace := trace s @ [c]\<rparr>"

text \<open>
  GLib's error functions on the caller's slot. \<open>g_set_error\<close> and \<open>g_propagate_error\<close>
  store the new error only into an empty slot: over an error that is already there they
  log a warning, free the new error and leave the old one. \<open>g_prefix_error\<close> puts a
  prefix before the message of the error in the slot and does nothing to an empty slot.
  The slot itself is always given (\<open>error\<close> is not \<open>NULL\<close>). GLib asks a caller to pass an
  empty slot; the properties that depend on it say so.
\<close>

definition g_propagate_error :: "gerror \<Rightarrow> state \<Rightarrow> state" where
  "g_propagate_error e s = (case err s of None \<Rightarrow> s\<lparr>err := Some e\<rparr> | Some _ \<Rightarrow> s)"

definition g_set_error :: "bd_kbd_error \<Rightarrow> string \<Rightarrow> state \<Rightarrow> state" where
  "g_set_error k msg s = g_propagate_error (GError (Kbd k) msg) s"

definition g_prefix_error :: "string \<Rightarrow> state \<Rightarrow> state" where
  "g_prefix_error p s =
     s\<lparr>err := (case err s of None \<Rightarrow> None | Some e \<Rightarrow> Some (GError (kind e) (p @ message e)))\<rparr>"

definition g_clear_error :: "state \<Rightarrow> state" where
  "g_clear_error s = s\<lparr>err := None\<rparr>"

definition g_error_matches :: "gerror option \<Rightarrow> bd_kbd_error \<Rightarrow> bool" where
  "g_error_matches e k = (case e of None \<Rightarrow> False | Some g \<Rightarrow> kind g = Kbd k)"

text \<open>The single quote of the messages' \<open>'%s'\<close>.\<close>

abbreviation sq :: string where
  "sq \<equiv> [CHR 0x27]"

subsection \<open>The sysfs writer\<close>

text \<open>
  \<open>echo_str_to_file\<close>: open the file for writing, write the string (length \<open>-1\<close>: all of
  it up to its terminator), shut the channel down with a flush. A channel that was opened
  and could not be written is not shut down.
\<close>

definition echo_str_to_file :: "env \<Rightarrow> string \<Rightarrow> string \<Rightarrow> state \<Rightarrow> bool \<times> state" where
  "echo_str_to_file e str file_path s0 =
     (let s1 = do_call (G_io_channel_new_file file_path) s0 in
      case g_io_channel_new_file e (trace s0) file_path of
        Some ge \<Rightarrow>
          (False, g_prefix_error (''Failed to write '' @ sq @ str @ sq @ '' to file '' @ sq @ file_path @ sq @ '': '')
                    (g_propagate_error (foreign ge) s1))
      | None \<Rightarrow>
          (let s2 = do_call (G_io_channel_write_chars file_path str) s1 in
           case g_io_channel_write_chars e (trace s1) file_path str of
             Some ge \<Rightarrow>
               (False, g_prefix_error (''Failed to write '' @ sq @ str @ sq @ '' to file '' @ sq @ file_path @ sq @ '': '')
                         (g_propagate_error (foreign ge) s2))
           | None \<Rightarrow>
               (let s3 = do_call (G_io_channel_shutdown file_path) s2 in
                case g_io_channel_shutdown e (trace s2) file_path of
                  Some ge \<Rightarrow>
                    (False, g_prefix_error (''Failed to flush and close the file '' @ sq @ file_path @ sq @ '': '')
                              (g_propagate_error (foreign ge) s3))
                | None \<Rightarrow> (True, s3))))"

subsection \<open>The module loader\<close>

text \<open>
  \<open>load_kernel_module\<close> and \<open>unload_kernel_module\<close>. Setting the log priority and
  dropping references have no result the plugin reads, so they leave no call in the trace.
\<close>

definition load_kernel_module :: "env \<Rightarrow> string \<Rightarrow> string \<Rightarrow> state \<Rightarrow> bool \<times> state" where
  "load_kernel_module e module_name options s0 =
     (let s1 = do_call Kmod_new s0 in
      if \<not> kmod_new e (trace s0) then
        (False, g_set_error BD_KBD_ERROR_KMOD_INIT_FAIL ''Failed to initialize kmod context'' s1)
      else
        (let ret = kmod_module_new_from_name e (trace s1) module_name;
             s2 = do_call (Kmod_module_new_from_name module_name) s1 in
         if ret < 0 then
           (False, g_set_error BD_KBD_ERROR_MODULE_FAIL
                     (''Failed to get the module: '' @ strerror e (- ret)) s2)
         else
           (let s3 = do_call (Kmod_module_get_path module_name) s2 in
            if \<not> kmod_module_get_path e (trace s2) module_name then
              (False, g_set_error BD_KBD_ERROR_MODULE_NOEXIST
                        (''Module '' @ sq @ module_name @ sq @ '' doesn'' @ sq @ ''t exist'') s3)
            else
              (let ret = kmod_module_insert_module e (trace s3) module_name options;
                   s4 = do_call (Kmod_module_insert_module module_name options) s3 in
               if ret < 0 then
                 (False, g_set_error BD_KBD_ERROR_MODULE_FAIL
                           (''Failed to load the module '' @ sq @ module_name @ sq @
                            '' with options '' @ sq @ options @ sq @ '': '' @ strerror e (- ret)) s4)
               else (True, s4)))))"

text \<open>
  The search of the list of loaded modules: \<open>for (cur=list; !found && cur != NULL; ...)\<close>,
  over the modules' names. It stops at the first module whose name is the wanted one.
\<close>

fun find_loaded :: "string list \<Rightarrow> string \<Rightarrow> bool \<Rightarrow> bool" where
  "find_loaded [] module_name found = found"
| "find_loaded (cur # list) module_name found =
     (if \<not> found then find_loaded list module_name (cur = module_name) else found)"

definition unload_kernel_module :: "env \<Rightarrow> string \<Rightarrow> state \<Rightarrow> bool \<times> state" where
  "unload_kernel_module e module_name s0 =
     (let s1 = do_call Kmod_new s0 in
      if \<not> kmod_new e (trace s0) then
        (False, g_set_error BD_KBD_ERROR_KMOD_INIT_FAIL ''Failed to initialize kmod context'' s1)
      else
        (let (ret, list) = kmod_module_new_from_loaded e (trace s1);
             s2 = do_call Kmod_module_new_from_loaded s1 in
         if ret < 0 then
           (False, g_set_error BD_KBD_ERROR_MODULE_FAIL
                     (''Failed to get the module: '' @ strerror e (- ret)) s2)
         else if \<not> find_loaded list module_name False then
           (False, g_set_error BD_KBD_ERROR_MODULE_NOEXIST
                     (''Module '' @ sq @ module_name @ sq @ '' is not loaded'') s2)
         else
           (let ret = kmod_module_remove_module e (trace s2) module_name;
                s3 = do_call (Kmod_module_remove_module module_name) s2 in
            if ret < 0 then
              (False, g_set_error BD_KBD_ERROR_MODULE_FAIL
                        (''Failed to unload the module '' @ sq @ module_name @ sq @ '': '' @
                         strerror e (- ret)) s3)
            else (True, s3))))"

subsection \<open>zRAM devices\<close>

text \<open>The decimal digits of \<open>"%" G_GUINT64_FORMAT\<close>.\<close>

fun dec :: "nat \<Rightarrow> string" where
  "dec n = (if n < 10 then [''0123456789'' ! n] else dec (n div 10) @ [''0123456789'' ! (n mod 10)])"

declare dec.simps [simp del]

text \<open>
  What a C function does: it returns its \<open>gboolean\<close>, or its behaviour is undefined (a
  read past the end of an array, arithmetic on a \<open>NULL\<close> pointer). For a loop, \<open>Ret True\<close>
  is leaving the loop at its end and \<open>Ret False\<close> is the \<open>return FALSE\<close> in its body.
\<close>

datatype outcome = Ret bool | UB

definition zram_streams_path :: "nat \<Rightarrow> string" where
  "zram_streams_path i = ''/sys/block/zram'' @ dec i @ ''/max_comp_streams''"

definition zram_disksize_path :: "nat \<Rightarrow> string" where
  "zram_disksize_path i = ''/sys/block/zram'' @ dec i @ ''/disksize''"

text \<open>
  The two loops of \<open>bd_kbd_zram_create_devices\<close>, from index \<open>i\<close>. The arrays are lists;
  \<open>nstreams[i]\<close> and \<open>sizes[i]\<close> past the end of the list are undefined behaviour. The
  indices are \<open>guint64\<close>; \<open>i\<close> stays below \<open>num_devices\<close>, so \<open>i++\<close> never wraps.
\<close>

function zram_streams_loop :: "env \<Rightarrow> 64 word list \<Rightarrow> nat \<Rightarrow> nat \<Rightarrow> state \<Rightarrow> outcome \<times> state" where
  "zram_streams_loop e nstreams num_devices i s =
     (if i < num_devices then
        (if i < length nstreams then
           (case echo_str_to_file e (dec (unat (nstreams ! i))) (zram_streams_path i) s of
              (success, s') \<Rightarrow>
                if \<not> success then
                  (Ret False,
                   g_prefix_error (''Failed to set number of compression streams for '' @ sq @
                                   ''/dev/zram'' @ dec i @ sq @ '': '') s')
                else zram_streams_loop e nstreams num_devices (i + 1) s')
         else (UB, s))
      else (Ret True, s))"
  by pat_completeness auto
termination
  by (relation "measure (\<lambda>(e, nstreams, num_devices, i, s). num_devices - i)") auto

declare zram_streams_loop.simps [simp del]

function zram_sizes_loop :: "env \<Rightarrow> 64 word list \<Rightarrow> nat \<Rightarrow> nat \<Rightarrow> state \<Rightarrow> outcome \<times> state" where
  "zram_sizes_loop e sizes num_devices i s =
     (if i < num_devices then
        (if i < length sizes then
           (case echo_str_to_file e (dec (unat (sizes ! i))) (zram_disksize_path i) s of
              (success, s') \<Rightarrow>
                if \<not> success then
                  (Ret False,
                   g_prefix_error (''Failed to set size for '' @ sq @
                                   ''/dev/zram'' @ dec i @ sq @ '': '') s')
                else zram_sizes_loop e sizes num_devices (i + 1) s')
         else (UB, s))
      else (Ret True, s))"
  by pat_completeness auto
termination
  by (relation "measure (\<lambda>(e, sizes, num_devices, i, s). num_devices - i)") auto

declare zram_sizes_loop.simps [simp del]

text \<open>
  \<open>bd_kbd_zram_create_devices\<close>, in the three parts of its body. Lines 189 to 211 load
  the module: \<open>Some r\<close> is a \<open>return r\<close> there, \<open>None\<close> is going on to the devices.
  Lines 213 to 243 set the devices up. \<open>nstreams\<close> is \<open>None\<close> for the \<open>NULL\<close> pointer the
  function allows.
\<close>

definition zram_load_module :: "env \<Rightarrow> 64 word \<Rightarrow> state \<Rightarrow> bool option \<times> state" where
  "zram_load_module e num_devices s0 =
     (let opts = ''num_devices='' @ dec (unat num_devices) in
      case load_kernel_module e ''zram'' opts s0 of
        (success, s1) \<Rightarrow>
          if \<not> success \<and> g_error_matches (err s1) BD_KBD_ERROR_MODULE_FAIL then
            (case unload_kernel_module e ''zram'' (g_clear_error s1) of
               (success, s2) \<Rightarrow>
                 if \<not> success then
                   (Some False, g_prefix_error ''zram module already loaded: '' s2)
                 else
                   (case load_kernel_module e ''zram'' opts s2 of
                      (success, s3) \<Rightarrow>
                        if \<not> success then (Some False, s3) else (None, s3)))
          else if \<not> success then (Some False, s1)
          else (None, s1))"

definition zram_set_devices ::
    "env \<Rightarrow> 64 word \<Rightarrow> 64 word list \<Rightarrow> 64 word list option \<Rightarrow> state \<Rightarrow> outcome \<times> state" where
  "zram_set_devices e num_devices sizes nstreams s4 =
     (case (case nstreams of
              Some ns \<Rightarrow> zram_streams_loop e ns (unat num_devices) 0 s4
            | None \<Rightarrow> (Ret True, s4)) of
        (Ret True, s5) \<Rightarrow> zram_sizes_loop e sizes (unat num_devices) 0 s5
      | (r, s5) \<Rightarrow> (r, s5))"

definition bd_kbd_zram_create_devices ::
    "env \<Rightarrow> 64 word \<Rightarrow> 64 word list \<Rightarrow> 64 word list option \<Rightarrow> state \<Rightarrow> outcome \<times> state" where
  "bd_kbd_zram_create_devices e num_devices sizes nstreams s0 =
     (case zram_load_module e num_devices s0 of
        (Some r, s4) \<Rightarrow> (Ret r, s4)
      | (None, s4) \<Rightarrow> zram_set_devices e num_devices sizes nstreams s4)"

definition bd_kbd_zram_destroy_devices :: "env \<Rightarrow> state \<Rightarrow> bool \<times> state" where
  "bd_kbd_zram_destroy_devices e s = unload_kernel_module e ''zram'' s"

subsection \<open>Strings and the Set UUID pattern\<close>

text \<open>
  A pointer into a C string is the rest of the string from that position; \<open>NULL\<close> is
  \<open>None\<close>. \<open>strchr\<close> finds the first occurrence of a character, \<open>strrchr\<close> the last.
\<close>

fun strchr :: "string \<Rightarrow> char \<Rightarrow> string option" where
  "strchr [] c = None"
| "strchr (x # xs) c = (if x = c then Some (x # xs) else strchr xs c)"

fun strrchr :: "string \<Rightarrow> char \<Rightarrow> string option" where
  "strrchr [] c = None"
| "strrchr (x # xs) c =
     (case strrchr xs c of
        Some r \<Rightarrow> Some r
      | None \<Rightarrow> if x = c then Some (x # xs) else None)"

text \<open>\<open>g_str_has_prefix (bcache_device, "/dev/")\<close> and \<open>bcache_device += 5\<close>.\<close>

definition strip_dev :: "string \<Rightarrow> string" where
  "strip_dev bcache_device =
     (if prefix ''/dev/'' bcache_device then drop 5 bcache_device else bcache_device)"

text \<open>
  \<open>g_strsplit (output, "\n", 0)\<close>: the pieces between the newlines; the empty string has
  no piece at all.
\<close>

fun split_nl :: "string \<Rightarrow> string list" where
  "split_nl [] = [[]]"
| "split_nl (c # cs) =
     (if c = CHR 0x0A then [] # split_nl cs
      else (case split_nl cs of [] \<Rightarrow> [[c]] | l # ls \<Rightarrow> (c # l) # ls))"

definition g_strsplit :: "string \<Rightarrow> string list" where
  "g_strsplit output = (if output = [] then [] else split_nl output)"

text \<open>
  The regular expression \<open>Set UUID:\s+([-a-z0-9]+)\<close>, which always compiles. \<open>match_here\<close>
  matches it at the start of a string and gives the first group: the two repetitions are
  greedy and their character classes are disjoint, so the group is the longest run of
  \<open>[-a-z0-9]\<close> after the longest run of white space. \<open>g_regex_match\<close> searches a line for
  the leftmost match. White space is what \<open>\s\<close> matches in PCRE: space, tab, line feed,
  vertical tab, form feed and carriage return. The lines are taken to be valid UTF-8, as
  the tool prints them.
\<close>

definition is_space :: "char \<Rightarrow> bool" where
  "is_space c = (c \<in> set [CHR '' '', CHR 0x09, CHR 0x0A, CHR 0x0B, CHR 0x0C, CHR 0x0D])"

definition is_uuid_char :: "char \<Rightarrow> bool" where
  "is_uuid_char c = (c \<in> set ''-abcdefghijklmnopqrstuvwxyz0123456789'')"

definition match_here :: "string \<Rightarrow> string option" where
  "match_here s =
     (if prefix ''Set UUID:'' s then
        (let r = drop 9 s;
             ws = takeWhile is_space r;
             grp = takeWhile is_uuid_char (dropWhile is_space r) in
         if ws \<noteq> [] \<and> grp \<noteq> [] then Some grp else None)
      else None)"

fun g_regex_match :: "string \<Rightarrow> string option" where
  "g_regex_match [] = match_here []"
| "g_regex_match (c # cs) =
     (case match_here (c # cs) of Some grp \<Rightarrow> Some grp | None \<Rightarrow> g_regex_match cs)"

text \<open>
  The loop of \<open>bd_kbd_bcache_create\<close> over the lines,
  \<open>for (i=0; !found && lines[i]; i++)\<close>, with its variables \<open>found\<close> and \<open>set_uuid\<close>.
\<close>

function find_set_uuid :: "string list \<Rightarrow> nat \<Rightarrow> bool \<Rightarrow> string option \<Rightarrow> bool \<times> string option" where
  "find_set_uuid lines i found set_uuid =
     (if \<not> found \<and> i < length lines then
        (case g_regex_match (lines ! i) of
           Some grp \<Rightarrow> find_set_uuid lines (i + 1) True (Some grp)
         | None \<Rightarrow> find_set_uuid lines (i + 1) found set_uuid)
      else (found, set_uuid))"
  by pat_completeness auto
termination
  by (relation "measure (\<lambda>(lines, i, found, set_uuid). length lines - i)") auto

declare find_set_uuid.simps [simp del]

text \<open>
  Moving "three slashes forward" in the matched path: \<open>dev_name = path + 1\<close>, then
  \<open>for (i=0; i < 2 && dev_name; i++)\<close> to the character after the next slash.
\<close>

function skip_slashes :: "nat \<Rightarrow> string option \<Rightarrow> string option" where
  "skip_slashes i dev_name =
     (if i < 2 \<and> dev_name \<noteq> None then
        skip_slashes (i + 1)
          (case strchr (the dev_name) CHR ''/'' of None \<Rightarrow> None | Some d \<Rightarrow> Some (tl d))
      else dev_name)"
  by pat_completeness auto
termination
  by (relation "measure (\<lambda>(i, dev_name). 2 - i)") auto

declare skip_slashes.simps [simp del]

text \<open>
  The device name of a matched path, lines 350 to 362. \<open>Inl UB\<close>: the path is empty, so
  \<open>path + 1\<close> is past its terminator, or no slash ends the name, so \<open>dev_name_end\<close> is
  \<open>NULL\<close> and \<open>dev_name_end - dev_name\<close> is not a length. \<open>Inl (Ret False)\<close>: the
  \<open>return FALSE\<close> of line 358. \<open>Inr\<close>: the name that \<open>g_strndup\<close> copies, with the length
  it is given.
\<close>

definition ptr_diff :: "string \<Rightarrow> string \<Rightarrow> int" where
  "ptr_diff p_end p = int (length p) - int (length p_end)"

definition path_dev_name :: "string \<Rightarrow> outcome + string" where
  "path_dev_name path =
     (if path = [] then Inl UB
      else
        (case skip_slashes 0 (Some (tl path)) of
           None \<Rightarrow> Inl (Ret False)
         | Some dev_name \<Rightarrow>
             (case strchr dev_name CHR ''/'' of
                None \<Rightarrow> Inl UB
              | Some dev_name_end \<Rightarrow> Inr (take (nat (ptr_diff dev_name_end dev_name)) dev_name))))"

subsection \<open>bcache\<close>

definition bd_kbd_bcache_attach :: "env \<Rightarrow> string \<Rightarrow> string \<Rightarrow> state \<Rightarrow> bool \<times> state" where
  "bd_kbd_bcache_attach e c_set_uuid bcache_device s =
     echo_str_to_file e c_set_uuid (''/sys/block/'' @ strip_dev bcache_device @ ''/bcache/attach'') s"

text \<open>
  \<open>bd_kbd_bcache_detach\<close>: the result is the returned \<open>gboolean\<close>, what is stored through
  \<open>c_set_uuid\<close> (a slot the caller gives) and the state.
\<close>

definition bd_kbd_bcache_detach :: "env \<Rightarrow> string \<Rightarrow> state \<Rightarrow> bool \<times> string option \<times> state" where
  "bd_kbd_bcache_detach e bcache_device0 s0 =
     (let bcache_device = strip_dev bcache_device0;
          path = ''/sys/block/'' @ bcache_device @ ''/bcache/cache'';
          s1 = do_call (Access path) s0 in
      if access e (trace s0) path \<noteq> 0 then
        (False, None,
         g_set_error BD_KBD_ERROR_BCACHE_NOT_ATTACHED
           (''No cache attached to '' @ sq @ bcache_device @ sq @ '' or '' @ sq @ bcache_device @ sq @
            '' not set up'') s1)
      else
        (let s2 = do_call (G_file_read_link path) s1 in
         case g_file_read_link e (trace s1) path of
           Inl ge \<Rightarrow>
             (False, None,
              g_prefix_error (''Failed to determine cache set UUID for '' @ sq @ bcache_device @ sq)
                (g_propagate_error (foreign ge) s2))
         | Inr link \<Rightarrow>
             (case strrchr link CHR ''/'' of
                None \<Rightarrow>
                  (False, None,
                   g_set_error BD_KBD_ERROR_BCACHE_UUID
                     (''Failed to determine cache set UUID for '' @ sq @ bcache_device @ sq) s2)
              | Some uuid0 \<Rightarrow>
                  (let uuid = tl uuid0;
                       path = ''/sys/block/'' @ bcache_device @ ''/bcache/detach'' in
                   case echo_str_to_file e uuid path s2 of
                     (success, s3) \<Rightarrow>
                       if \<not> success then
                         (False, None,
                          g_set_error BD_KBD_ERROR_BCACHE_DETACH_FAIL
                            (''Failed to detach '' @ sq @ uuid @ sq @ '' from '' @ sq @ bcache_device @ sq) s3)
                       else (True, Some uuid, s3)))))"

text \<open>
  \<open>bd_kbd_bcache_destroy\<close>. Its \<open>c_set_uuid\<close> starts as \<open>NULL\<close>, which \<open>"%s"\<close> would print
  as \<open>(null)\<close>; a detach that succeeded has stored the UUID there.
\<close>

definition bd_kbd_bcache_destroy :: "env \<Rightarrow> string \<Rightarrow> state \<Rightarrow> bool \<times> state" where
  "bd_kbd_bcache_destroy e bcache_device0 s0 =
     (let bcache_device = strip_dev bcache_device0 in
      case bd_kbd_bcache_detach e bcache_device s0 of
        (success, c_set_uuid, s1) \<Rightarrow>
          if \<not> success then (False, s1)
          else
            (case echo_str_to_file e ''1''
                    (''/sys/fs/bcache/'' @ (case c_set_uuid of None \<Rightarrow> ''(null)'' | Some u \<Rightarrow> u) @ ''/stop'') s1 of
               (success, s2) \<Rightarrow>
                 if \<not> success then (False, g_prefix_error ''Failed to stop the cache set: '' s2)
                 else
                   (case echo_str_to_file e ''1'' (''/sys/block/'' @ bcache_device @ ''/bcache/stop'') s2 of
                      (success, s3) \<Rightarrow>
                        if \<not> success then (False, g_prefix_error ''Failed to stop the bcache: '' s3)
                        else (True, s3))))"

text \<open>
  \<open>bd_kbd_bcache_create\<close>: the result is the outcome, the name stored through
  \<open>bcache_device\<close> and the state. \<open>glob\<close> answers its return value and \<open>gl_pathv\<close>; the
  first entry of an empty \<open>gl_pathv\<close> is the \<open>NULL\<close> that ends it. \<open>set_uuid\<close> is \<open>NULL\<close>
  until a line matches, and writing a \<open>NULL\<close> string is undefined.
\<close>

definition bd_kbd_bcache_create ::
    "env \<Rightarrow> string \<Rightarrow> string \<Rightarrow> state \<Rightarrow> outcome \<times> string option \<times> state" where
  "bd_kbd_bcache_create e backing_device cache_device s0 =
     (let argv = [''make-bcache'', ''-B'', backing_device, ''-C'', cache_device];
          s1 = do_call (Bd_utils_exec_and_capture_output argv) s0 in
      case bd_utils_exec_and_capture_output e (trace s0) argv of
        Inl ge \<Rightarrow> (Ret False, None, g_propagate_error (foreign ge) s1)
      | Inr output \<Rightarrow>
          (case find_set_uuid (g_strsplit output) 0 False None of
             (found, set_uuid) \<Rightarrow>
               if \<not> found then
                 (Ret False, None,
                  g_set_error BD_KBD_ERROR_BCACHE_PARSE
                    (''Failed to determine Set UUID from: '' @ output) s1)
               else
                 (case strrchr backing_device CHR ''/'' of
                    None \<Rightarrow> (Ret False, None, s1)
                  | Some dev_name0 \<Rightarrow>
                      (let dev_name = tl dev_name0 in
                       case echo_str_to_file e backing_device ''/sys/fs/bcache/register'' s1 of
                         (success, s2) \<Rightarrow>
                           if \<not> success then (Ret False, None, s2)
                           else
                             (let pattern = ''/sys/block/*/slaves/'' @ dev_name;
                                  s3 = do_call (Glob pattern) s2 in
                              case glob e (trace s2) pattern of
                                (ret, gl_pathv) \<Rightarrow>
                                  if ret \<noteq> 0 then
                                    (Ret False, None,
                                     g_set_error BD_KBD_ERROR_BCACHE_SETUP_FAIL
                                       (''Failed to determine bcache device name for '' @ sq @ dev_name @ sq) s3)
                                  else
                                    (case gl_pathv of
                                       [] \<Rightarrow> (UB, None, s3)
                                     | path # _ \<Rightarrow>
                                         (case path_dev_name path of
                                            Inl r \<Rightarrow> (r, None, s3)
                                          | Inr dev_name \<Rightarrow>
                                              (case set_uuid of
                                                 None \<Rightarrow> (UB, None, s3)
                                               | Some uuid \<Rightarrow>
                                                   (case bd_kbd_bcache_attach e uuid dev_name s3 of
                                                      (success, s4) \<Rightarrow>
                                                        if \<not> success then
                                                          (Ret False, None,
                                                           g_prefix_error
                                                             ''Failed to attach the cache to the backing device: '' s4)
                                                        else (Ret True, Some dev_name, s4))))))))))"

subsection \<open>Traces and concrete environments\<close>

text \<open>The calls of one complete \<open>echo_str_to_file\<close>.\<close>

definition echo_calls :: "string \<Rightarrow> string \<Rightarrow> call list" where
  "echo_calls file_path str =
     [G_io_channel_new_file file_path, G_io_channel_write_chars file_path str,
      G_io_channel_shutdown file_path]"

text \<open>
  An environment in which every call succeeds: \<open>make-bcache\<close> prints a Set UUID, the
  backing device \<open>sdb1\<close> is a slave of \<open>bcache0\<close>, and the cache link of a bcache device
  points to the cache set \<open>abcd\<close>. The initial state has an empty trace and an empty
  error slot, as GLib asks of a caller.
\<close>

definition env_ok :: env where
  "env_ok =
     \<lparr>kmod_new = (\<lambda>t. True),
      kmod_module_new_from_name = (\<lambda>t n. 0),
      kmod_module_get_path = (\<lambda>t n. True),
      kmod_module_insert_module = (\<lambda>t n opts. 0),
      kmod_module_new_from_loaded = (\<lambda>t. (0, [''loop'', ''zram''])),
      kmod_module_remove_module = (\<lambda>t n. 0),
      g_io_channel_new_file = (\<lambda>t p. None),
      g_io_channel_write_chars = (\<lambda>t p v. None),
      g_io_channel_shutdown = (\<lambda>t p. None),
      bd_utils_exec_and_capture_output = (\<lambda>t argv. Inr ''UUID: 77\<newline>Set UUID:  1234-deadbeef\<newline>''),
      glob = (\<lambda>t p. (0, [''/sys/block/bcache0/slaves/sdb1''])),
      access = (\<lambda>t p. 0),
      g_file_read_link = (\<lambda>t p. Inr ''../../../../fs/bcache/abcd''),
      strerror = (\<lambda>n. ''errno '' @ dec (nat n))\<rparr>"

definition s_init :: state where
  "s_init = \<lparr>trace = [], err = None\<rparr>"

text \<open>The file a call of the sysfs writer is about, and the calls that are such calls.\<close>

fun call_path :: "call \<Rightarrow> string option" where
  "call_path (G_io_channel_new_file p) = Some p"
| "call_path (G_io_channel_write_chars p str) = Some p"
| "call_path (G_io_channel_shutdown p) = Some p"
| "call_path _ = None"

definition is_file_write :: "call \<Rightarrow> bool" where
  "is_file_write c = (call_path c \<noteq> None)"

text \<open>
  Variations: the tool prints no Set UUID; no file can be opened for writing; \<open>glob\<close>
  finds nothing (\<open>GLOB_NOMATCH\<close>).
\<close>

definition env_no_uuid :: env where
  "env_no_uuid = env_ok\<lparr>bd_utils_exec_and_capture_output := (\<lambda>t argv. Inr ''UUID: 77\<newline>Set UUID:\<newline>'')\<rparr>"

definition env_no_open :: env where
  "env_no_open = env_ok\<lparr>g_io_channel_new_file := (\<lambda>t p. Some (''g-file-error-quark'', 2, ''Permission denied''))\<rparr>"

definition env_no_glob :: env where
  "env_no_glob = env_ok\<lparr>glob := (\<lambda>t p. (3, []))\<rparr>"

text \<open>A variation: the stop file of the cache set \<open>abcd\<close> cannot be opened.\<close>

definition env_set_stop_fails :: env where
  "env_set_stop_fails =
     env_ok\<lparr>g_io_channel_new_file :=
              (\<lambda>t p. if p = ''/sys/fs/bcache/abcd/stop''
                     then Some (''g-file-error-quark'', 2, ''Permission denied'')
                     else None)\<rparr>"

text \<open>
  Every \<open>load_kernel_module\<close> and every \<open>unload_kernel_module\<close> begins with one
  \<open>kmod_new\<close>, so the number of \<open>Kmod_new\<close> calls in a trace is the number of times the
  module loader was entered. \<open>new_calls s s'\<close> are the calls made from \<open>s\<close> to \<open>s'\<close>.
\<close>

definition module_calls :: "call list \<Rightarrow> nat" where
  "module_calls t = count_list t Kmod_new"

definition new_calls :: "state \<Rightarrow> state \<Rightarrow> call list" where
  "new_calls s s' = drop (length (trace s)) (trace s')"

text \<open>
  Variations: inserting a module always fails with \<open>-17\<close> and removing one with \<open>-16\<close>;
  inserting fails with \<open>-17\<close> until the module has been removed.
\<close>

definition env_busy :: env where
  "env_busy =
     env_ok\<lparr>kmod_module_insert_module := (\<lambda>t n opts. - 17),
            kmod_module_remove_module := (\<lambda>t n. - 16)\<rparr>"

definition env_stale :: env where
  "env_stale =
     env_ok\<lparr>kmod_module_insert_module :=
              (\<lambda>t n opts. if Kmod_module_remove_module n \<in> set t then 0 else - 17)\<rparr>"

text \<open>
  The calls that are about a file whose name ends with \<open>/max_comp_streams\<close>, and those
  about a file whose name ends with \<open>/disksize\<close>.
\<close>

definition is_streams_write :: "call \<Rightarrow> bool" where
  "is_streams_write c =
     (case call_path c of Some p \<Rightarrow> suffix ''/max_comp_streams'' p | None \<Rightarrow> False)"

definition is_disksize_write :: "call \<Rightarrow> bool" where
  "is_disksize_write c =
     (case call_path c of Some p \<Rightarrow> suffix ''/disksize'' p | None \<Rightarrow> False)"

text \<open>A variation: the write of the stream count of \<open>zram1\<close> fails when it is flushed.\<close>

definition env_streams_fail :: env where
  "env_streams_fail =
     env_ok\<lparr>g_io_channel_shutdown :=
              (\<lambda>t p. if p = ''/sys/block/zram1/max_comp_streams''
                     then Some (''g-io-channel-error-quark'', 1, ''Invalid argument'')
                     else None)\<rparr>"

text \<open>An error slot that holds no error of the plugin's own domain.\<close>

definition no_kbd_error :: "gerror option \<Rightarrow> bool" where
  "no_kbd_error eo =
     (case eo of None \<Rightarrow> True
      | Some g \<Rightarrow> (case kind g of Kbd k \<Rightarrow> False | Foreign d c \<Rightarrow> True))"

text \<open>
  The pattern \<open>Set UUID:\s+([-a-z0-9]+)\<close> and the splitting into lines, read as
  descriptions of strings, to compare the functions above with. \<open>\s\<close> is the space or a
  character from tab (9) to carriage return (13); \<open>[-a-z0-9]\<close> is the hyphen, a lower-case
  letter or a digit, by character codes. The pattern matches at the start of a string,
  with the group \<open>grp\<close>, when the string is \<open>Set UUID:\<close>, then one or more white-space
  characters, then \<open>grp\<close>, one or more characters of the class, then a rest that does not
  go on with a character of the class (the repetition is greedy). It matches a line
  leftmost when it matches at some position and at no earlier one. The lines of a text
  joined with line feeds are the text.
\<close>

definition spec_space :: "char \<Rightarrow> bool" where
  "spec_space c = (let n = of_char c :: nat in n = 32 \<or> (9 \<le> n \<and> n \<le> 13))"

definition spec_uuid_char :: "char \<Rightarrow> bool" where
  "spec_uuid_char c =
     (let n = of_char c :: nat in n = 45 \<or> (97 \<le> n \<and> n \<le> 122) \<or> (48 \<le> n \<and> n \<le> 57))"

definition spec_match_at :: "string \<Rightarrow> string \<Rightarrow> bool" where
  "spec_match_at s grp =
     (\<exists>ws rest. s = ''Set UUID:'' @ ws @ grp @ rest \<and>
        ws \<noteq> [] \<and> list_all spec_space ws \<and>
        grp \<noteq> [] \<and> list_all spec_uuid_char grp \<and>
        (rest = [] \<or> \<not> spec_uuid_char (hd rest)))"

definition spec_leftmost_match :: "string \<Rightarrow> string \<Rightarrow> bool" where
  "spec_leftmost_match l grp =
     (\<exists>pre s. l = pre @ s \<and> spec_match_at s grp \<and>
        (\<forall>p t g. l = p @ t \<and> length p < length pre \<longrightarrow> \<not> spec_match_at t g))"

fun spec_join_lines :: "string list \<Rightarrow> string" where
  "spec_join_lines [] = []"
| "spec_join_lines [l] = l"
| "spec_join_lines (l # l' # ls) = l @ CHR 0x0A # spec_join_lines (l' # ls)"

section \<open>Properties\<close>

subsection \<open>The state and the error slot\<close>

lemma foreign_simp [simp]: "foreign (d, c, m) = GError (Foreign d c) m"
  by (simp add: foreign_def)

lemma do_call_simps [simp]:
  "trace (do_call c s) = trace s @ [c]" "err (do_call c s) = err s"
  by (simp_all add: do_call_def)

lemma g_propagate_error_simps [simp]:
  "trace (g_propagate_error ge s) = trace s"
  "err (g_propagate_error ge s) = (case err s of None \<Rightarrow> Some ge | Some old \<Rightarrow> Some old)"
  by (simp_all add: g_propagate_error_def split: option.splits)

lemma g_set_error_simps [simp]:
  "trace (g_set_error k msg s) = trace s"
  "err (g_set_error k msg s) = (case err s of None \<Rightarrow> Some (GError (Kbd k) msg) | Some old \<Rightarrow> Some old)"
  by (simp_all add: g_set_error_def)

lemma g_prefix_error_simps [simp]:
  "trace (g_prefix_error p s) = trace s"
  "err (g_prefix_error p s) = (case err s of None \<Rightarrow> None | Some ge \<Rightarrow> Some (GError (kind ge) (p @ message ge)))"
  by (simp_all add: g_prefix_error_def)

lemma g_clear_error_simps [simp]:
  "trace (g_clear_error s) = trace s" "err (g_clear_error s) = None"
  by (simp_all add: g_clear_error_def)

lemma state_eqI: "trace s = trace s' \<Longrightarrow> err s = err s' \<Longrightarrow> (s::state) = s'"
  by simp

lemma echo_trace:
  "\<exists>k. 0 < k \<and> k \<le> 3 \<and> (fst (echo_str_to_file e str p s) \<longrightarrow> k = 3) \<and>
       trace (snd (echo_str_to_file e str p s)) = trace s @ take k (echo_calls p str)"
proof (cases "g_io_channel_new_file e (trace s) p")
  case (Some ge)
  then have "trace (snd (echo_str_to_file e str p s)) = trace s @ take 1 (echo_calls p str)"
    "\<not> fst (echo_str_to_file e str p s)"
    by (simp_all add: echo_str_to_file_def echo_calls_def)
  then show ?thesis by (intro exI[of _ 1]) simp
next
  case a: None
  show ?thesis
  proof (cases "g_io_channel_write_chars e (trace s @ [G_io_channel_new_file p]) p str")
    case (Some ge)
    with a have "trace (snd (echo_str_to_file e str p s)) = trace s @ take 2 (echo_calls p str)"
      "\<not> fst (echo_str_to_file e str p s)"
      by (simp_all add: echo_str_to_file_def echo_calls_def)
    then show ?thesis by (intro exI[of _ 2]) simp
  next
    case b: None
    from a b have "trace (snd (echo_str_to_file e str p s)) = trace s @ take 3 (echo_calls p str)"
      by (simp add: echo_str_to_file_def echo_calls_def Let_def split: option.splits)
    then show ?thesis by (intro exI[of _ 3]) simp
  qed
qed

lemma echo_fail_err: "\<not> fst (echo_str_to_file e str p s) \<Longrightarrow> err (snd (echo_str_to_file e str p s)) \<noteq> None"
  by (auto simp add: echo_str_to_file_def Let_def split: option.splits)

lemma echo_ok_err: "fst (echo_str_to_file e str p s) \<Longrightarrow> err (snd (echo_str_to_file e str p s)) = err s"
  by (auto simp add: echo_str_to_file_def Let_def split: option.splits)

subsection \<open>The sysfs writer\<close>

text \<open>
  C9. For every value and path, from an empty error slot: \<open>echo_str_to_file\<close> opens the
  file, writes the value as it is given, and shuts the channel down with a flush, in this
  order; it returns \<open>TRUE\<close> exactly when the three steps succeed, and then the trace has
  grown by exactly these three calls and the slot is still empty. When it returns \<open>FALSE\<close>,
  the failing step is the last call of the trace and the slot holds the error that step
  reported: its kind, and its message behind a prefix.
\<close>

theorem echo_str_to_file_contract:
  assumes "err s = None"
  shows "(let t1 = trace s @ [G_io_channel_new_file file_path];
               t2 = t1 @ [G_io_channel_write_chars file_path str];
               t3 = t2 @ [G_io_channel_shutdown file_path];
               opened = g_io_channel_new_file e (trace s) file_path;
               written = g_io_channel_write_chars e t1 file_path str;
               closed = g_io_channel_shutdown e t2 file_path;
               r = echo_str_to_file e str file_path s
          in (fst r \<longleftrightarrow> opened = None \<and> written = None \<and> closed = None) \<and>
             (fst r \<longrightarrow> snd r = \<lparr>trace = t3, err = None\<rparr>) \<and>
             (\<not> fst r \<longrightarrow>
                (\<exists>d c m pre t.
                    (opened = Some (d, c, m) \<and> t = t1 \<or>
                     opened = None \<and> written = Some (d, c, m) \<and> t = t2 \<or>
                     opened = None \<and> written = None \<and> closed = Some (d, c, m) \<and> t = t3) \<and>
                    snd r = \<lparr>trace = t, err = Some (GError (Foreign d c) (pre @ m))\<rparr>)))"
proof (cases "g_io_channel_new_file e (trace s) file_path")
  case (Some ge)
  obtain d c m where ge: "ge = (d, c, m)" by (cases ge)
  have "echo_str_to_file e str file_path s =
          (False, \<lparr>trace = trace s @ [G_io_channel_new_file file_path],
                   err = Some (GError (Foreign d c)
                     ((''Failed to write '' @ sq @ str @ sq @ '' to file '' @ sq @ file_path @ sq @ '': '') @ m))\<rparr>)"
    using Some ge assms by (simp add: echo_str_to_file_def state_eqI)
  with Some ge show ?thesis
    unfolding Let_def by (simp only: fst_conv snd_conv) blast
next
  case o: None
  show ?thesis
  proof (cases "g_io_channel_write_chars e (trace s @ [G_io_channel_new_file file_path]) file_path str")
    case (Some ge)
    obtain d c m where ge: "ge = (d, c, m)" by (cases ge)
    have "echo_str_to_file e str file_path s =
          (False, \<lparr>trace = (trace s @ [G_io_channel_new_file file_path]) @
                             [G_io_channel_write_chars file_path str],
                   err = Some (GError (Foreign d c)
                     ((''Failed to write '' @ sq @ str @ sq @ '' to file '' @ sq @ file_path @ sq @ '': '') @ m))\<rparr>)"
      using Some o ge assms by (simp add: echo_str_to_file_def state_eqI)
    with Some o ge show ?thesis
      unfolding Let_def by (simp only: fst_conv snd_conv) blast
  next
    case w: None
    show ?thesis
    proof (cases "g_io_channel_shutdown e ((trace s @ [G_io_channel_new_file file_path]) @
                     [G_io_channel_write_chars file_path str]) file_path")
      case (Some ge)
      obtain d c m where ge: "ge = (d, c, m)" by (cases ge)
      have "echo_str_to_file e str file_path s =
          (False, \<lparr>trace = ((trace s @ [G_io_channel_new_file file_path]) @
                             [G_io_channel_write_chars file_path str]) @ [G_io_channel_shutdown file_path],
                   err = Some (GError (Foreign d c)
                     ((''Failed to flush and close the file '' @ sq @ file_path @ sq @ '': '') @ m))\<rparr>)"
        using Some o w ge assms by (simp add: echo_str_to_file_def state_eqI)
      with Some o w ge show ?thesis
        unfolding Let_def by (simp only: fst_conv snd_conv) blast
    next
      case None
      have "echo_str_to_file e str file_path s =
          (True, \<lparr>trace = ((trace s @ [G_io_channel_new_file file_path]) @
                             [G_io_channel_write_chars file_path str]) @ [G_io_channel_shutdown file_path],
                   err = None\<rparr>)"
        using None o w assms by (simp add: echo_str_to_file_def state_eqI)
      with None o w show ?thesis
        unfolding Let_def by (simp only: fst_conv snd_conv) blast
    qed
  qed
qed

theorem echo_str_to_file_contract_witness:
  "err s_init = None \<and>
   echo_str_to_file env_ok ''1'' ''/sys/fs/bcache/abcd/stop'' s_init =
     (True, \<lparr>trace = [G_io_channel_new_file ''/sys/fs/bcache/abcd/stop'',
                       G_io_channel_write_chars ''/sys/fs/bcache/abcd/stop'' ''1'',
                       G_io_channel_shutdown ''/sys/fs/bcache/abcd/stop''], err = None\<rparr>)"
  using echo_str_to_file_contract [of s_init "''/sys/fs/bcache/abcd/stop''" "''1''" env_ok]
  by (simp add: s_init_def env_ok_def Let_def prod_eq_iff)

subsection \<open>The Set UUID parser\<close>

text \<open>
  The loop over the lines stops at the first line the expression matches, and the model
  of the expression agrees with the pattern read as a description of strings.
\<close>

lemma find_set_uuid_found: "find_set_uuid lines i True su = (True, su)"
  by (simp add: find_set_uuid.simps)

lemma find_set_uuid_drop:
  "find_set_uuid lines i False su =
     (case find (\<lambda>l. g_regex_match l \<noteq> None) (drop i lines) of
        None \<Rightarrow> (False, su)
      | Some l \<Rightarrow> (True, g_regex_match l))"
proof (induction "length lines - i" arbitrary: i)
  case 0
  then show ?case by (simp add: find_set_uuid.simps)
next
  case (Suc k)
  then have lt: "i < length lines" and k: "k = length lines - (i + 1)" by simp_all
  have d: "drop i lines = lines ! i # drop (i + 1) lines"
    using lt by (simp add: Cons_nth_drop_Suc)
  show ?case
  proof (cases "g_regex_match (lines ! i)")
    case None
    then show ?thesis
      using Suc.hyps(1)[OF k] lt d by (subst find_set_uuid.simps) simp
  next
    case (Some grp)
    then show ?thesis
      using lt d by (subst find_set_uuid.simps) (simp add: find_set_uuid_found)
  qed
qed

lemma uuid_char_not_space: "is_uuid_char c \<Longrightarrow> \<not> is_space c"
  by (auto simp add: is_uuid_char_def is_space_def)

lemma match_here_pattern:
  "match_here s \<noteq> None \<longleftrightarrow>
     (\<exists>ws grp rest. s = ''Set UUID:'' @ ws @ grp @ rest \<and> ws \<noteq> [] \<and> list_all is_space ws \<and>
        grp \<noteq> [] \<and> list_all is_uuid_char grp)"
proof
  assume m: "match_here s \<noteq> None"
  define r where "r = drop 9 s"
  define ws where "ws = takeWhile is_space r"
  define grp where "grp = takeWhile is_uuid_char (dropWhile is_space r)"
  define rest where "rest = dropWhile is_uuid_char (dropWhile is_space r)"
  from m have p: "prefix ''Set UUID:'' s" and ne: "ws \<noteq> []" "grp \<noteq> []"
    by (auto simp add: match_here_def Let_def r_def ws_def grp_def split: if_splits)
  from p obtain t where "s = ''Set UUID:'' @ t" by (auto simp add: prefix_def)
  then have "s = ''Set UUID:'' @ r" by (simp add: r_def)
  moreover have "r = ws @ grp @ rest"
    by (simp add: ws_def grp_def rest_def)
  moreover have "list_all is_space ws" "list_all is_uuid_char grp"
    by (auto simp add: ws_def grp_def list_all_iff dest: set_takeWhileD)
  ultimately show "\<exists>ws grp rest. s = ''Set UUID:'' @ ws @ grp @ rest \<and> ws \<noteq> [] \<and> list_all is_space ws \<and>
        grp \<noteq> [] \<and> list_all is_uuid_char grp"
    using ne by blast
next
  assume "\<exists>ws grp rest. s = ''Set UUID:'' @ ws @ grp @ rest \<and> ws \<noteq> [] \<and> list_all is_space ws \<and>
        grp \<noteq> [] \<and> list_all is_uuid_char grp"
  then obtain ws grp rest where s: "s = ''Set UUID:'' @ ws @ grp @ rest" and ws: "ws \<noteq> []" "list_all is_space ws"
    and grp: "grp \<noteq> []" "list_all is_uuid_char grp" by blast
  from grp obtain g gs where g: "grp = g # gs" "is_uuid_char g" by (cases grp) auto
  have d: "drop 9 s = ws @ grp @ rest" by (simp add: s)
  have t1: "takeWhile is_space (ws @ grp @ rest) = ws"
    using ws g by (simp add: list_all_iff takeWhile_append2 uuid_char_not_space)
  have t2: "dropWhile is_space (ws @ grp @ rest) = grp @ rest"
    using ws g by (simp add: list_all_iff dropWhile_append2 uuid_char_not_space)
  have t3: "takeWhile is_uuid_char (grp @ rest) \<noteq> []"
    using g by simp
  have "prefix ''Set UUID:'' s" by (simp add: s)
  then show "match_here s \<noteq> None"
    using d t1 t2 t3 ws by (simp add: match_here_def Let_def)
qed

lemma g_regex_match_pattern:
  "g_regex_match l \<noteq> None \<longleftrightarrow>
     (\<exists>pre ws grp rest. l = pre @ ''Set UUID:'' @ ws @ grp @ rest \<and> ws \<noteq> [] \<and> list_all is_space ws \<and>
        grp \<noteq> [] \<and> list_all is_uuid_char grp)"
proof -
  have "g_regex_match l \<noteq> None \<longleftrightarrow> (\<exists>pre suf. l = pre @ suf \<and> match_here suf \<noteq> None)"
  proof (induction l)
    case Nil
    then show ?case by simp
  next
    case (Cons c cs)
    show ?case
    proof (cases "match_here (c # cs)")
      case None
      have "(\<exists>pre suf. c # cs = pre @ suf \<and> match_here suf \<noteq> None) \<longleftrightarrow>
            (\<exists>pre suf. cs = pre @ suf \<and> match_here suf \<noteq> None)"
      proof
        assume "\<exists>pre suf. c # cs = pre @ suf \<and> match_here suf \<noteq> None"
        then obtain pre suf where ps: "c # cs = pre @ suf" "match_here suf \<noteq> None" by blast
        with None obtain pre' where "pre = c # pre'" by (cases pre) auto
        with ps show "\<exists>pre suf. cs = pre @ suf \<and> match_here suf \<noteq> None" by auto
      next
        assume "\<exists>pre suf. cs = pre @ suf \<and> match_here suf \<noteq> None"
        then obtain pre suf where "cs = pre @ suf" "match_here suf \<noteq> None" by blast
        then have "c # cs = (c # pre) @ suf \<and> match_here suf \<noteq> None" by simp
        then show "\<exists>pre suf. c # cs = pre @ suf \<and> match_here suf \<noteq> None" by blast
      qed
      with None Cons.IH show ?thesis by simp
    next
      case (Some grp)
      then have "c # cs = [] @ (c # cs) \<and> match_here (c # cs) \<noteq> None" by simp
      then have "\<exists>pre suf. c # cs = pre @ suf \<and> match_here suf \<noteq> None" by blast
      with Some show ?thesis by simp
    qed
  qed
  then show ?thesis
    unfolding match_here_pattern by metis
qed

subsection \<open>The device name of a matched path\<close>

lemma strchr_append:
  "c \<notin> set xs \<Longrightarrow> strchr (xs @ c # ys) c = Some (c # ys)"
  by (induction xs) auto

lemma strchr_None: "strchr xs c = None \<longleftrightarrow> c \<notin> set xs"
  by (induction xs) auto

lemma strrchr_None: "strrchr xs c = None \<longleftrightarrow> c \<notin> set xs"
  by (induction xs) (auto split: option.splits)

lemma strrchr_notin: "c \<notin> set xs \<Longrightarrow> strrchr xs c = None"
  by (simp add: strrchr_None)

lemma strrchr_append:
  "c \<notin> set ys \<Longrightarrow> strrchr (xs @ c # ys) c = Some (c # ys)"
  by (induction xs) (simp_all add: strrchr_notin)

lemma skip_slashes_shape:
  assumes "CHR ''/'' \<notin> set a" "CHR ''/'' \<notin> set b"
  shows "skip_slashes 0 (Some (a @ ''/'' @ b @ ''/'' @ r)) = Some r"
proof -
  have 1: "skip_slashes 0 (Some (a @ ''/'' @ b @ ''/'' @ r)) = skip_slashes (Suc 0) (Some (b @ ''/'' @ r))"
    using assms(1) by (subst skip_slashes.simps) (simp add: strchr_append)
  have 2: "skip_slashes (Suc 0) (Some (b @ ''/'' @ r)) = skip_slashes (Suc (Suc 0)) (Some r)"
    using assms(2) by (subst skip_slashes.simps) (simp add: strchr_append)
  have 3: "skip_slashes (Suc (Suc 0)) (Some r) = Some r"
    by (subst skip_slashes.simps) simp
  show ?thesis by (simp only: 1 2 3)
qed

lemma path_dev_name_shape:
  assumes "CHR ''/'' \<notin> set a" "CHR ''/'' \<notin> set b" "CHR ''/'' \<notin> set name"
  shows "path_dev_name (''/'' @ a @ ''/'' @ b @ ''/'' @ name @ ''/'' @ rest) = Inr name"
  using assms skip_slashes_shape [OF assms(1,2), of "name @ ''/'' @ rest"]
  by (simp add: path_dev_name_def strchr_append ptr_diff_def)

text \<open>
  C10. For every path of the shape \<open>/a/b/name/rest\<close>, where \<open>a\<close>, \<open>b\<close> and \<open>name\<close> hold no
  slash (\<open>/sys/block/<name>/slaves/<backing>\<close> is such a path): the path is not empty,
  moving three slashes forward ends at a position that is not \<open>NULL\<close>, namely at
  \<open>name/rest\<close>; the search for the next slash from there finds one; the length given to
  \<open>g_strndup\<close> is not negative; and the name copied is \<open>name\<close>. So the case of a \<open>NULL\<close>
  end of the name does not arise for such a path.
\<close>

theorem dev_name_extraction_total:
  assumes "path = ''/'' @ a @ ''/'' @ b @ ''/'' @ name @ ''/'' @ rest"
    and "CHR ''/'' \<notin> set a" and "CHR ''/'' \<notin> set b" and "CHR ''/'' \<notin> set name"
  shows "path \<noteq> [] \<and>
         skip_slashes 0 (Some (tl path)) = Some (name @ ''/'' @ rest) \<and>
         strchr (name @ ''/'' @ rest) CHR ''/'' = Some (''/'' @ rest) \<and>
         0 \<le> ptr_diff (''/'' @ rest) (name @ ''/'' @ rest) \<and>
         path_dev_name path = Inr name"
  using assms skip_slashes_shape [OF assms(2,3), of "name @ ''/'' @ rest"]
    path_dev_name_shape [OF assms(2,3,4), of rest]
  by (simp add: strchr_append ptr_diff_def)

theorem dev_name_extraction_total_witness:
  "skip_slashes 0 (Some (tl ''/sys/block/bcache0/slaves/sdb1'')) = Some ''bcache0/slaves/sdb1'' \<and>
   strchr ''bcache0/slaves/sdb1'' CHR ''/'' = Some ''/slaves/sdb1'' \<and>
   ptr_diff ''/slaves/sdb1'' ''bcache0/slaves/sdb1'' = 7 \<and>
   path_dev_name ''/sys/block/bcache0/slaves/sdb1'' = Inr ''bcache0''"
  using dev_name_extraction_total [of "''/sys/block/bcache0/slaves/sdb1''" "''sys''" "''block''" "''bcache0''" "''slaves/sdb1''"]
  by (simp add: ptr_diff_def)

subsection \<open>Creating a bcache device\<close>

lemma find_set_uuid_None:
  "list_all (\<lambda>l. g_regex_match l = None) lines \<Longrightarrow> find_set_uuid lines 0 False None = (False, None)"
  using find_set_uuid_drop [of lines 0 None]
  by (auto simp add: list_all_iff find_None_iff split: option.splits)

lemma find_set_uuid_True:
  "find_set_uuid lines 0 False None = (True, su) \<Longrightarrow> list_ex (\<lambda>l. g_regex_match l \<noteq> None) lines"
proof (rule ccontr)
  assume t: "find_set_uuid lines 0 False None = (True, su)"
    and n: "\<not> list_ex (\<lambda>l. g_regex_match l \<noteq> None) lines"
  from n have "list_all (\<lambda>l. g_regex_match l = None) lines"
    by (simp add: list_all_iff list_ex_iff)
  with t show False by (simp add: find_set_uuid_None)
qed

lemma bcache_create_env_ok:
  "bd_kbd_bcache_create env_ok ''/dev/sdb1'' ''/dev/sdc1'' s_init =
     (Ret True, Some ''bcache0'',
      \<lparr>trace =
     [Bd_utils_exec_and_capture_output
       [''make-bcache'', ''-B'', ''/dev/sdb1'', ''-C'', ''/dev/sdc1''],
      G_io_channel_new_file ''/sys/fs/bcache/register'',
      G_io_channel_write_chars ''/sys/fs/bcache/register'' ''/dev/sdb1'',
      G_io_channel_shutdown ''/sys/fs/bcache/register'',
      Glob ''/sys/block/*/slaves/sdb1'',
      G_io_channel_new_file ''/sys/block/bcache0/bcache/attach'',
      G_io_channel_write_chars ''/sys/block/bcache0/bcache/attach''
       ''1234-deadbeef'',
      G_io_channel_shutdown ''/sys/block/bcache0/bcache/attach''], err = None\<rparr>)"
    by (simp add: bd_kbd_bcache_create_def s_init_def env_ok_def g_strsplit_def match_here_def
        is_space_def is_uuid_char_def find_set_uuid.simps echo_str_to_file_def do_call_def
        path_dev_name_def skip_slashes.simps ptr_diff_def bd_kbd_bcache_attach_def strip_dev_def)

text \<open>
  C5. From an empty error slot, when the tool succeeds and no line of its output matches
  the Set UUID pattern, \<open>bd_kbd_bcache_create\<close> returns \<open>FALSE\<close> with an error of the kind
  \<open>BD_KBD_ERROR_BCACHE_PARSE\<close> whose message ends with the whole output, and the only
  call it has made is the run of the tool: no file is written. And in every run, whenever
  a file is written at all (the first such write is the one to
  \<open>/sys/fs/bcache/register\<close>), the tool had succeeded and a line of its output had matched.
\<close>

theorem bcache_create_parse_error:
  "(err s = None \<and>
    bd_utils_exec_and_capture_output e (trace s)
      [''make-bcache'', ''-B'', backing_device, ''-C'', cache_device] = Inr output \<and>
    list_all (\<lambda>l. g_regex_match l = None) (g_strsplit output) \<longrightarrow>
    bd_kbd_bcache_create e backing_device cache_device s =
      (Ret False, None,
       \<lparr>trace = trace s @ [Bd_utils_exec_and_capture_output
                             [''make-bcache'', ''-B'', backing_device, ''-C'', cache_device]],
        err = Some (GError (Kbd BD_KBD_ERROR_BCACHE_PARSE)
                      (''Failed to determine Set UUID from: '' @ output))\<rparr>)) \<and>
   (list_ex is_file_write
      (drop (length (trace s)) (trace (snd (snd (bd_kbd_bcache_create e backing_device cache_device s))))) \<longrightarrow>
    (\<exists>out. bd_utils_exec_and_capture_output e (trace s)
             [''make-bcache'', ''-B'', backing_device, ''-C'', cache_device] = Inr out \<and>
           list_ex (\<lambda>l. g_regex_match l \<noteq> None) (g_strsplit out)))"
proof (intro conjI impI)
  assume a: "err s = None \<and>
    bd_utils_exec_and_capture_output e (trace s)
      [''make-bcache'', ''-B'', backing_device, ''-C'', cache_device] = Inr output \<and>
    list_all (\<lambda>l. g_regex_match l = None) (g_strsplit output)"
  then have "find_set_uuid (g_strsplit output) 0 False None = (False, None)"
    by (simp add: find_set_uuid_None)
  with a show "bd_kbd_bcache_create e backing_device cache_device s =
      (Ret False, None,
       \<lparr>trace = trace s @ [Bd_utils_exec_and_capture_output
                             [''make-bcache'', ''-B'', backing_device, ''-C'', cache_device]],
        err = Some (GError (Kbd BD_KBD_ERROR_BCACHE_PARSE)
                      (''Failed to determine Set UUID from: '' @ output))\<rparr>)"
    by (simp add: bd_kbd_bcache_create_def state_eqI)
next
  let ?argv = "[''make-bcache'', ''-B'', backing_device, ''-C'', cache_device]"
  assume w: "list_ex is_file_write
      (drop (length (trace s)) (trace (snd (snd (bd_kbd_bcache_create e backing_device cache_device s)))))"
  show "\<exists>out. bd_utils_exec_and_capture_output e (trace s) ?argv = Inr out \<and>
           list_ex (\<lambda>l. g_regex_match l \<noteq> None) (g_strsplit out)"
  proof (cases "bd_utils_exec_and_capture_output e (trace s) ?argv")
    case (Inl ge)
    with w show ?thesis
      by (simp add: bd_kbd_bcache_create_def is_file_write_def)
  next
    case (Inr out)
    obtain found su where f: "find_set_uuid (g_strsplit out) 0 False None = (found, su)"
      by (cases "find_set_uuid (g_strsplit out) 0 False None")
    show ?thesis
    proof (cases found)
      case True
      with f Inr show ?thesis by (auto dest: find_set_uuid_True)
    next
      case False
      with w f Inr show ?thesis
        by (simp add: bd_kbd_bcache_create_def is_file_write_def)
    qed
  qed
qed

theorem bcache_create_parse_error_witness:
  "bd_kbd_bcache_create env_no_uuid ''/dev/sdb1'' ''/dev/sdc1'' s_init =
      (Ret False, None,
       \<lparr>trace = [Bd_utils_exec_and_capture_output
                             [''make-bcache'', ''-B'', ''/dev/sdb1'', ''-C'', ''/dev/sdc1'']],
        err = Some (GError (Kbd BD_KBD_ERROR_BCACHE_PARSE)
                      ''Failed to determine Set UUID from: UUID: 77\<newline>Set UUID:\<newline>'')\<rparr>) \<and>
   list_ex is_file_write (trace (snd (snd (bd_kbd_bcache_create env_ok ''/dev/sdb1'' ''/dev/sdc1'' s_init)))) \<and>
   list_ex (\<lambda>l. g_regex_match l \<noteq> None) (g_strsplit ''UUID: 77\<newline>Set UUID:  1234-deadbeef\<newline>'')"
proof -
  have h: "err s_init = None \<and>
    bd_utils_exec_and_capture_output env_no_uuid (trace s_init)
      [''make-bcache'', ''-B'', ''/dev/sdb1'', ''-C'', ''/dev/sdc1''] = Inr ''UUID: 77\<newline>Set UUID:\<newline>'' \<and>
    list_all (\<lambda>l. g_regex_match l = None) (g_strsplit ''UUID: 77\<newline>Set UUID:\<newline>'')"
    by (simp add: s_init_def env_no_uuid_def env_ok_def g_strsplit_def match_here_def)
  have w: "list_ex is_file_write (drop (length (trace s_init))
            (trace (snd (snd (bd_kbd_bcache_create env_ok ''/dev/sdb1'' ''/dev/sdc1'' s_init)))))"
    unfolding bcache_create_env_ok by (simp add: s_init_def is_file_write_def)
  have 1: "bd_kbd_bcache_create env_no_uuid ''/dev/sdb1'' ''/dev/sdc1'' s_init =
      (Ret False, None,
       \<lparr>trace = [Bd_utils_exec_and_capture_output
                             [''make-bcache'', ''-B'', ''/dev/sdb1'', ''-C'', ''/dev/sdc1'']],
        err = Some (GError (Kbd BD_KBD_ERROR_BCACHE_PARSE)
                      ''Failed to determine Set UUID from: UUID: 77\<newline>Set UUID:\<newline>'')\<rparr>)"
    using bcache_create_parse_error [of s_init env_no_uuid "''/dev/sdb1''" "''/dev/sdc1''" "''UUID: 77\<newline>Set UUID:\<newline>''"] h
    by (simp add: s_init_def)
  have 2: "list_ex is_file_write (trace (snd (snd (bd_kbd_bcache_create env_ok ''/dev/sdb1'' ''/dev/sdc1'' s_init))))"
    by (simp add: bcache_create_env_ok is_file_write_def)
  from bcache_create_parse_error [of s_init env_ok "''/dev/sdb1''" "''/dev/sdc1''"] w
  have "\<exists>out. bd_utils_exec_and_capture_output env_ok (trace s_init)
             [''make-bcache'', ''-B'', ''/dev/sdb1'', ''-C'', ''/dev/sdc1''] = Inr out \<and>
           list_ex (\<lambda>l. g_regex_match l \<noteq> None) (g_strsplit out)"
    by blast
  then have 3: "list_ex (\<lambda>l. g_regex_match l \<noteq> None) (g_strsplit ''UUID: 77\<newline>Set UUID:  1234-deadbeef\<newline>'')"
    by (auto simp add: env_ok_def)
  from 1 2 3 show ?thesis by blast
qed

lemma find_set_uuid_env_ok:
  "find_set_uuid (g_strsplit ''UUID: 77\<newline>Set UUID:  1234-deadbeef\<newline>'') 0 False None =
     (True, Some ''1234-deadbeef'')"
  by (simp add: g_strsplit_def match_here_def is_space_def is_uuid_char_def find_set_uuid.simps)

text \<open>
  C7. In \<open>bd_kbd_bcache_create\<close>, once the Set UUID is parsed, the backing device is
  \<open>dir/name\<close> with no slash in \<open>name\<close>, and the write to the register file has
  succeeded (the error slot being empty at the start): the function asks \<open>glob\<close> for
  \<open>/sys/block/*/slaves/name\<close>. If \<open>glob\<close> does not return 0 (as when nothing matches),
  the function returns \<open>FALSE\<close> with an error of the kind
  \<open>BD_KBD_ERROR_BCACHE_SETUP_FAIL\<close>. If it returns 0 and the first path it lists is
  \<open>/a/b/dev/rest\<close> with no slash in \<open>a\<close>, \<open>b\<close> and \<open>dev\<close>, whatever paths follow, the name
  extracted is the third component \<open>dev\<close>: the cache set is attached to \<open>dev\<close>, and
  \<open>dev\<close> is the name returned when the attach succeeds.
\<close>

theorem bcache_create_device_resolution:
  assumes "bd_utils_exec_and_capture_output e (trace s)
             [''make-bcache'', ''-B'', backing_device, ''-C'', cache_device] = Inr output"
    and "find_set_uuid (g_strsplit output) 0 False None = (True, Some uuid)"
    and "backing_device = dir @ ''/'' @ name" and "CHR ''/'' \<notin> set name"
    and "echo_str_to_file e backing_device ''/sys/fs/bcache/register''
           (do_call (Bd_utils_exec_and_capture_output
                       [''make-bcache'', ''-B'', backing_device, ''-C'', cache_device]) s) = (True, s2)"
    and "err s = None"
    and "glob e (trace s2) (''/sys/block/*/slaves/'' @ name) = (ret, gl_pathv)"
  shows "(ret \<noteq> 0 \<longrightarrow>
            bd_kbd_bcache_create e backing_device cache_device s =
              (Ret False, None,
               \<lparr>trace = trace s2 @ [Glob (''/sys/block/*/slaves/'' @ name)],
                err = Some (GError (Kbd BD_KBD_ERROR_BCACHE_SETUP_FAIL)
                              (''Failed to determine bcache device name for '' @ sq @ name @ sq))\<rparr>)) \<and>
         (ret = 0 \<and> gl_pathv = (''/'' @ a @ ''/'' @ b @ ''/'' @ dev @ ''/'' @ rest) # others \<and>
          CHR ''/'' \<notin> set a \<and> CHR ''/'' \<notin> set b \<and> CHR ''/'' \<notin> set dev \<longrightarrow>
            bd_kbd_bcache_create e backing_device cache_device s =
              (case bd_kbd_bcache_attach e uuid dev (do_call (Glob (''/sys/block/*/slaves/'' @ name)) s2) of
                 (success, s4) \<Rightarrow>
                   if success then (Ret True, Some dev, s4)
                   else (Ret False, None,
                         g_prefix_error ''Failed to attach the cache to the backing device: '' s4)))"
proof -
  have sr: "strrchr backing_device CHR ''/'' = Some (''/'' @ name)"
    using assms(3,4) by (simp add: strrchr_append)
  have e2: "err s2 = None"
    using echo_ok_err [of e backing_device "''/sys/fs/bcache/register''"
        "do_call (Bd_utils_exec_and_capture_output [''make-bcache'', ''-B'', backing_device, ''-C'', cache_device]) s"]
      assms(5,6) by simp
  show ?thesis
  proof (intro conjI impI)
    assume "ret \<noteq> 0"
    then show "bd_kbd_bcache_create e backing_device cache_device s =
              (Ret False, None,
               \<lparr>trace = trace s2 @ [Glob (''/sys/block/*/slaves/'' @ name)],
                err = Some (GError (Kbd BD_KBD_ERROR_BCACHE_SETUP_FAIL)
                              (''Failed to determine bcache device name for '' @ sq @ name @ sq))\<rparr>)"
      using assms(1,2,5,7) sr e2
      by (simp add: bd_kbd_bcache_create_def Let_def state_eqI)
  next
    assume h: "ret = 0 \<and> gl_pathv = (''/'' @ a @ ''/'' @ b @ ''/'' @ dev @ ''/'' @ rest) # others \<and>
          CHR ''/'' \<notin> set a \<and> CHR ''/'' \<notin> set b \<and> CHR ''/'' \<notin> set dev"
    then have pd: "path_dev_name (''/'' @ a @ ''/'' @ b @ ''/'' @ dev @ ''/'' @ rest) = Inr dev"
      using path_dev_name_shape [of a b dev rest] by blast
    show "bd_kbd_bcache_create e backing_device cache_device s =
              (case bd_kbd_bcache_attach e uuid dev (do_call (Glob (''/sys/block/*/slaves/'' @ name)) s2) of
                 (success, s4) \<Rightarrow>
                   if success then (Ret True, Some dev, s4)
                   else (Ret False, None,
                         g_prefix_error ''Failed to attach the cache to the backing device: '' s4))"
      using assms(1,2,5,7) sr h pd
      by (simp add: bd_kbd_bcache_create_def Let_def split: prod.splits)
  qed
qed

theorem bcache_create_device_resolution_witness:
  "bd_kbd_bcache_create env_no_glob ''/dev/sdb1'' ''/dev/sdc1'' s_init =
     (Ret False, None,
      \<lparr>trace = [Bd_utils_exec_and_capture_output [''make-bcache'', ''-B'', ''/dev/sdb1'', ''-C'', ''/dev/sdc1''],
                G_io_channel_new_file ''/sys/fs/bcache/register'',
                G_io_channel_write_chars ''/sys/fs/bcache/register'' ''/dev/sdb1'',
                G_io_channel_shutdown ''/sys/fs/bcache/register'',
                Glob ''/sys/block/*/slaves/sdb1''],
       err = Some (GError (Kbd BD_KBD_ERROR_BCACHE_SETUP_FAIL)
                     (''Failed to determine bcache device name for '' @ sq @ ''sdb1'' @ sq))\<rparr>) \<and>
   fst (bd_kbd_bcache_create env_ok ''/dev/sdb1'' ''/dev/sdc1'' s_init) = Ret True \<and>
   fst (snd (bd_kbd_bcache_create env_ok ''/dev/sdb1'' ''/dev/sdc1'' s_init)) = Some ''bcache0''"
proof -
  let ?argv = "[''make-bcache'', ''-B'', ''/dev/sdb1'', ''-C'', ''/dev/sdc1'']"
  let ?s2 = "\<lparr>trace = [Bd_utils_exec_and_capture_output ?argv,
                G_io_channel_new_file ''/sys/fs/bcache/register'',
                G_io_channel_write_chars ''/sys/fs/bcache/register'' ''/dev/sdb1'',
                G_io_channel_shutdown ''/sys/fs/bcache/register''], err = None\<rparr>"
  have x1: "bd_utils_exec_and_capture_output env_no_glob (trace s_init) ?argv =
              Inr ''UUID: 77\<newline>Set UUID:  1234-deadbeef\<newline>''"
    by (simp add: env_no_glob_def env_ok_def)
  have x2: "bd_utils_exec_and_capture_output env_ok (trace s_init) ?argv =
              Inr ''UUID: 77\<newline>Set UUID:  1234-deadbeef\<newline>''"
    by (simp add: env_ok_def)
  have b: "''/dev/sdb1'' = ''/dev'' @ ''/'' @ ''sdb1''" "CHR ''/'' \<notin> set ''sdb1''"
    by simp_all
  have w1: "echo_str_to_file env_no_glob ''/dev/sdb1'' ''/sys/fs/bcache/register''
              (do_call (Bd_utils_exec_and_capture_output ?argv) s_init) = (True, ?s2)"
    by (simp add: echo_str_to_file_def env_no_glob_def env_ok_def s_init_def do_call_def)
  have w2: "echo_str_to_file env_ok ''/dev/sdb1'' ''/sys/fs/bcache/register''
              (do_call (Bd_utils_exec_and_capture_output ?argv) s_init) = (True, ?s2)"
    by (simp add: echo_str_to_file_def env_ok_def s_init_def do_call_def)
  have i: "err s_init = None" by (simp add: s_init_def)
  have g1: "glob env_no_glob (trace ?s2) (''/sys/block/*/slaves/'' @ ''sdb1'') = (3, [])"
    by (simp add: env_no_glob_def env_ok_def)
  have g2: "glob env_ok (trace ?s2) (''/sys/block/*/slaves/'' @ ''sdb1'') =
              (0, [''/sys/block/bcache0/slaves/sdb1''])"
    by (simp add: env_ok_def)
  have p: "(0::int) = 0 \<and>
        [''/sys/block/bcache0/slaves/sdb1''] = (''/'' @ ''sys'' @ ''/'' @ ''block'' @ ''/'' @ ''bcache0'' @ ''/'' @ ''slaves/sdb1'') # [] \<and>
        CHR ''/'' \<notin> set ''sys'' \<and> CHR ''/'' \<notin> set ''block'' \<and> CHR ''/'' \<notin> set ''bcache0''"
    by simp
  have a: "bd_kbd_bcache_attach env_ok ''1234-deadbeef'' ''bcache0''
             (do_call (Glob (''/sys/block/*/slaves/'' @ ''sdb1'')) ?s2) =
           (True, \<lparr>trace = trace ?s2 @ [Glob ''/sys/block/*/slaves/sdb1'',
                      G_io_channel_new_file ''/sys/block/bcache0/bcache/attach'',
                      G_io_channel_write_chars ''/sys/block/bcache0/bcache/attach'' ''1234-deadbeef'',
                      G_io_channel_shutdown ''/sys/block/bcache0/bcache/attach''], err = None\<rparr>)"
    by (simp add: bd_kbd_bcache_attach_def strip_dev_def echo_str_to_file_def env_ok_def do_call_def)
  note t1 = bcache_create_device_resolution
      [OF x1 find_set_uuid_env_ok b w1 i g1, of "''sys''" "''block''" "''bcache0''" "''slaves/sdb1''" "[]"]
  note t2 = bcache_create_device_resolution
      [OF x2 find_set_uuid_env_ok b w2 i g2, of "''sys''" "''block''" "''bcache0''" "''slaves/sdb1''" "[]"]
  from t1 have r1: "bd_kbd_bcache_create env_no_glob ''/dev/sdb1'' ''/dev/sdc1'' s_init =
     (Ret False, None,
      \<lparr>trace = trace ?s2 @ [Glob (''/sys/block/*/slaves/'' @ ''sdb1'')],
       err = Some (GError (Kbd BD_KBD_ERROR_BCACHE_SETUP_FAIL)
                     (''Failed to determine bcache device name for '' @ sq @ ''sdb1'' @ sq))\<rparr>)"
    by simp
  from t2 p have r2: "bd_kbd_bcache_create env_ok ''/dev/sdb1'' ''/dev/sdc1'' s_init =
     (case bd_kbd_bcache_attach env_ok ''1234-deadbeef'' ''bcache0''
             (do_call (Glob (''/sys/block/*/slaves/'' @ ''sdb1'')) ?s2) of
                 (success, s4) \<Rightarrow>
                   if success then (Ret True, Some ''bcache0'', s4)
                   else (Ret False, None,
                         g_prefix_error ''Failed to attach the cache to the backing device: '' s4))"
    by blast
  show ?thesis
    unfolding r1 r2 a by simp
qed

subsection \<open>Destroying a bcache device\<close>

lemma echo_calls_path: "c \<in> set (take k (echo_calls p str)) \<Longrightarrow> call_path c = Some p"
  by (auto simp add: echo_calls_def dest!: in_set_takeD)

lemma echo_ok_trace:
  "echo_str_to_file e str p s = (True, s') \<Longrightarrow> trace s' = trace s @ echo_calls p str"
  using echo_trace [of e str p s] by (auto simp add: echo_calls_def)

lemma echo_trace_snd:
  "\<exists>k. 0 < k \<and> k \<le> 3 \<and> trace (snd (echo_str_to_file e str p s)) = trace s @ take k (echo_calls p str)"
  using echo_trace [of e str p s] by blast

lemma bcache_detach_ok_trace:
  assumes "bd_kbd_bcache_detach e d s = (True, c_set_uuid, s1)"
  shows "\<exists>u. c_set_uuid = Some u \<and>
           trace s1 = trace s @ [Access (''/sys/block/'' @ strip_dev d @ ''/bcache/cache''),
                                 G_file_read_link (''/sys/block/'' @ strip_dev d @ ''/bcache/cache'')] @
                      echo_calls (''/sys/block/'' @ strip_dev d @ ''/bcache/detach'') u"
  using assms
  by (auto simp add: bd_kbd_bcache_detach_def Let_def split: if_splits sum.splits option.splits prod.splits
      dest!: echo_ok_trace)

lemma bcache_destroy_after_detach:
  assumes "bd_kbd_bcache_detach e (strip_dev bcache_device) s = (True, Some u, s1)"
  shows "bd_kbd_bcache_destroy e bcache_device s =
     (case echo_str_to_file e ''1'' (''/sys/fs/bcache/'' @ u @ ''/stop'') s1 of
        (ok1, s2) \<Rightarrow>
          if \<not> ok1 then (False, g_prefix_error ''Failed to stop the cache set: '' s2)
          else
            (case echo_str_to_file e ''1'' (''/sys/block/'' @ strip_dev bcache_device @ ''/bcache/stop'') s2 of
               (ok2, s3) \<Rightarrow>
                 if \<not> ok2 then (False, g_prefix_error ''Failed to stop the bcache: '' s3)
                 else (True, s3)))"
  by (simp add: bd_kbd_bcache_destroy_def assms Let_def)

lemma bcache_detach_env_ok:
  "bd_kbd_bcache_detach env_ok ''bcache0'' s_init =
     (True, Some ''abcd'',
      \<lparr>trace = [Access ''/sys/block/bcache0/bcache/cache'',
                G_file_read_link ''/sys/block/bcache0/bcache/cache'',
                G_io_channel_new_file ''/sys/block/bcache0/bcache/detach'',
                G_io_channel_write_chars ''/sys/block/bcache0/bcache/detach'' ''abcd'',
                G_io_channel_shutdown ''/sys/block/bcache0/bcache/detach''], err = None\<rparr>)"
  by (simp add: bd_kbd_bcache_detach_def strip_dev_def env_ok_def s_init_def echo_str_to_file_def do_call_def Let_def)

lemma bcache_detach_env_set_stop_fails:
  "bd_kbd_bcache_detach env_set_stop_fails ''bcache0'' s_init =
     (True, Some ''abcd'',
      \<lparr>trace = [Access ''/sys/block/bcache0/bcache/cache'',
                G_file_read_link ''/sys/block/bcache0/bcache/cache'',
                G_io_channel_new_file ''/sys/block/bcache0/bcache/detach'',
                G_io_channel_write_chars ''/sys/block/bcache0/bcache/detach'' ''abcd'',
                G_io_channel_shutdown ''/sys/block/bcache0/bcache/detach''], err = None\<rparr>)"
  by (simp add: bd_kbd_bcache_detach_def strip_dev_def env_set_stop_fails_def env_ok_def s_init_def
      echo_str_to_file_def do_call_def Let_def)

text \<open>
  C4. \<open>bd_kbd_bcache_destroy\<close> strips \<open>/dev/\<close> from the device and detaches it. When the
  detach succeeds with the UUID \<open>u\<close>, the trace so far is the trace at the start followed
  by the calls of the detach; then \<open>1\<close> is written to \<open>/sys/fs/bcache/u/stop\<close>. If
  that write fails, the function returns \<open>FALSE\<close> with the error prefixed by
  \<open>Failed to stop the cache set: \<close>, the trace ends within the calls of that write, and
  no call after the detach is about \<open>/sys/block/<device>/bcache/stop\<close>. If it succeeds,
  all three of its calls are in the trace and the write of \<open>1\<close> to
  \<open>/sys/block/<device>/bcache/stop\<close> follows them; its success is the function's result.
\<close>

theorem bcache_destroy_order:
  assumes "bd_kbd_bcache_detach e (strip_dev bcache_device) s = (True, Some u, s1)"
  shows "(let cache = ''/sys/block/'' @ strip_dev (strip_dev bcache_device) @ ''/bcache/cache'';
              detach = ''/sys/block/'' @ strip_dev (strip_dev bcache_device) @ ''/bcache/detach'';
              set_stop = ''/sys/fs/bcache/'' @ u @ ''/stop'';
              dev_stop = ''/sys/block/'' @ strip_dev bcache_device @ ''/bcache/stop'';
              w1 = echo_str_to_file e ''1'' set_stop s1;
              w2 = echo_str_to_file e ''1'' dev_stop (snd w1);
              r = bd_kbd_bcache_destroy e bcache_device s
          in trace s1 = trace s @ [Access cache, G_file_read_link cache] @ echo_calls detach u \<and>
             (\<not> fst w1 \<longrightarrow>
                r = (False, g_prefix_error ''Failed to stop the cache set: '' (snd w1)) \<and>
                (\<exists>k. 0 < k \<and> k \<le> 3 \<and> trace (snd r) = trace s1 @ take k (echo_calls set_stop ''1'')) \<and>
                \<not> list_ex (\<lambda>c. call_path c = Some dev_stop) (drop (length (trace s1)) (trace (snd r)))) \<and>
             (fst w1 \<longrightarrow>
                r = (if fst w2 then (True, snd w2)
                     else (False, g_prefix_error ''Failed to stop the bcache: '' (snd w2))) \<and>
                (\<exists>k. 0 < k \<and> k \<le> 3 \<and>
                   trace (snd r) = trace s1 @ echo_calls set_stop ''1'' @ take k (echo_calls dev_stop ''1''))))"
proof -
  define set_stop where "set_stop = ''/sys/fs/bcache/'' @ u @ ''/stop''"
  define dev_stop where "dev_stop = ''/sys/block/'' @ strip_dev bcache_device @ ''/bcache/stop''"
  define w1 where "w1 = echo_str_to_file e ''1'' set_stop s1"
  define w2 where "w2 = echo_str_to_file e ''1'' dev_stop (snd w1)"
  define r where "r = bd_kbd_bcache_destroy e bcache_device s"
  have ne: "set_stop \<noteq> dev_stop" by (simp add: set_stop_def dev_stop_def)
  have t0: "trace s1 = trace s @ [Access (''/sys/block/'' @ strip_dev (strip_dev bcache_device) @ ''/bcache/cache''),
                 G_file_read_link (''/sys/block/'' @ strip_dev (strip_dev bcache_device) @ ''/bcache/cache'')] @
              echo_calls (''/sys/block/'' @ strip_dev (strip_dev bcache_device) @ ''/bcache/detach'') u"
    using bcache_detach_ok_trace [OF assms] by simp
  obtain k1 where k1: "0 < k1" "k1 \<le> 3" "trace (snd w1) = trace s1 @ take k1 (echo_calls set_stop ''1'')"
    using echo_trace_snd [of e "''1''" set_stop s1] by (auto simp add: w1_def)
  obtain k2 where k2: "0 < k2" "k2 \<le> 3" "trace (snd w2) = trace (snd w1) @ take k2 (echo_calls dev_stop ''1'')"
    using echo_trace_snd [of e "''1''" dev_stop "snd w1"] by (auto simp add: w2_def)
  have f: "\<not> fst w1 \<longrightarrow>
                r = (False, g_prefix_error ''Failed to stop the cache set: '' (snd w1)) \<and>
                (\<exists>k. 0 < k \<and> k \<le> 3 \<and> trace (snd r) = trace s1 @ take k (echo_calls set_stop ''1'')) \<and>
                \<not> list_ex (\<lambda>c. call_path c = Some dev_stop) (drop (length (trace s1)) (trace (snd r)))"
  proof
    assume n: "\<not> fst w1"
    then have r1: "r = (False, g_prefix_error ''Failed to stop the cache set: '' (snd w1))"
      unfolding r_def bcache_destroy_after_detach [OF assms]
      by (cases w1) (simp add: w1_def set_stop_def)
    then have tr: "trace (snd r) = trace s1 @ take k1 (echo_calls set_stop ''1'')"
      using k1 by simp
    have "\<not> list_ex (\<lambda>c. call_path c = Some dev_stop) (take k1 (echo_calls set_stop ''1''))"
      using ne by (auto simp add: list_ex_iff dest: echo_calls_path)
    with r1 tr k1 show "r = (False, g_prefix_error ''Failed to stop the cache set: '' (snd w1)) \<and>
                (\<exists>k. 0 < k \<and> k \<le> 3 \<and> trace (snd r) = trace s1 @ take k (echo_calls set_stop ''1'')) \<and>
                \<not> list_ex (\<lambda>c. call_path c = Some dev_stop) (drop (length (trace s1)) (trace (snd r)))"
      by auto
  qed
  have g: "fst w1 \<longrightarrow>
                r = (if fst w2 then (True, snd w2)
                     else (False, g_prefix_error ''Failed to stop the bcache: '' (snd w2))) \<and>
                (\<exists>k. 0 < k \<and> k \<le> 3 \<and>
                   trace (snd r) = trace s1 @ echo_calls set_stop ''1'' @ take k (echo_calls dev_stop ''1''))"
  proof
    assume y: "fst w1"
    then have r2: "r = (if fst w2 then (True, snd w2)
                     else (False, g_prefix_error ''Failed to stop the bcache: '' (snd w2)))"
      unfolding r_def bcache_destroy_after_detach [OF assms]
      by (cases w1; cases w2) (simp add: w1_def w2_def set_stop_def dev_stop_def)
    have "trace (snd w1) = trace s1 @ echo_calls set_stop ''1''"
      using y echo_ok_trace [of e "''1''" set_stop s1 "snd w1"] by (cases w1) (simp add: w1_def)
    with k2 r2 have "trace (snd r) = trace s1 @ echo_calls set_stop ''1'' @ take k2 (echo_calls dev_stop ''1'')"
      by simp
    with r2 k2 show "r = (if fst w2 then (True, snd w2)
                     else (False, g_prefix_error ''Failed to stop the bcache: '' (snd w2))) \<and>
                (\<exists>k. 0 < k \<and> k \<le> 3 \<and>
                   trace (snd r) = trace s1 @ echo_calls set_stop ''1'' @ take k (echo_calls dev_stop ''1''))"
      by blast
  qed
  show ?thesis
    unfolding Let_def
    using t0 f g
    unfolding set_stop_def dev_stop_def w1_def w2_def r_def
    by blast
qed

theorem bcache_destroy_order_witness:
  "bd_kbd_bcache_destroy env_ok ''/dev/bcache0'' s_init =
     (True,
      \<lparr>trace = [Access ''/sys/block/bcache0/bcache/cache'',
                G_file_read_link ''/sys/block/bcache0/bcache/cache'',
                G_io_channel_new_file ''/sys/block/bcache0/bcache/detach'',
                G_io_channel_write_chars ''/sys/block/bcache0/bcache/detach'' ''abcd'',
                G_io_channel_shutdown ''/sys/block/bcache0/bcache/detach'',
                G_io_channel_new_file ''/sys/fs/bcache/abcd/stop'',
                G_io_channel_write_chars ''/sys/fs/bcache/abcd/stop'' ''1'',
                G_io_channel_shutdown ''/sys/fs/bcache/abcd/stop'',
                G_io_channel_new_file ''/sys/block/bcache0/bcache/stop'',
                G_io_channel_write_chars ''/sys/block/bcache0/bcache/stop'' ''1'',
                G_io_channel_shutdown ''/sys/block/bcache0/bcache/stop''], err = None\<rparr>) \<and>
   bd_kbd_bcache_destroy env_set_stop_fails ''/dev/bcache0'' s_init =
     (False,
      \<lparr>trace = [Access ''/sys/block/bcache0/bcache/cache'',
                G_file_read_link ''/sys/block/bcache0/bcache/cache'',
                G_io_channel_new_file ''/sys/block/bcache0/bcache/detach'',
                G_io_channel_write_chars ''/sys/block/bcache0/bcache/detach'' ''abcd'',
                G_io_channel_shutdown ''/sys/block/bcache0/bcache/detach'',
                G_io_channel_new_file ''/sys/fs/bcache/abcd/stop''],
       err = Some (GError (Foreign ''g-file-error-quark'' 2)
                     (''Failed to stop the cache set: Failed to write '' @ sq @ ''1'' @ sq @ '' to file '' @ sq @
                      ''/sys/fs/bcache/abcd/stop'' @ sq @ '': Permission denied''))\<rparr>)"
proof -
  have d: "strip_dev ''/dev/bcache0'' = ''bcache0''" by (simp add: strip_dev_def)
  have h1: "bd_kbd_bcache_detach env_ok (strip_dev ''/dev/bcache0'') s_init =
     (True, Some ''abcd'',
      \<lparr>trace = [Access ''/sys/block/bcache0/bcache/cache'',
                G_file_read_link ''/sys/block/bcache0/bcache/cache'',
                G_io_channel_new_file ''/sys/block/bcache0/bcache/detach'',
                G_io_channel_write_chars ''/sys/block/bcache0/bcache/detach'' ''abcd'',
                G_io_channel_shutdown ''/sys/block/bcache0/bcache/detach''], err = None\<rparr>)"
    unfolding d by (rule bcache_detach_env_ok)
  have h2: "bd_kbd_bcache_detach env_set_stop_fails (strip_dev ''/dev/bcache0'') s_init =
     (True, Some ''abcd'',
      \<lparr>trace = [Access ''/sys/block/bcache0/bcache/cache'',
                G_file_read_link ''/sys/block/bcache0/bcache/cache'',
                G_io_channel_new_file ''/sys/block/bcache0/bcache/detach'',
                G_io_channel_write_chars ''/sys/block/bcache0/bcache/detach'' ''abcd'',
                G_io_channel_shutdown ''/sys/block/bcache0/bcache/detach''], err = None\<rparr>)"
    unfolding d by (rule bcache_detach_env_set_stop_fails)
  have 1: "bd_kbd_bcache_destroy env_ok ''/dev/bcache0'' s_init =
     (True,
      \<lparr>trace = [Access ''/sys/block/bcache0/bcache/cache'',
                G_file_read_link ''/sys/block/bcache0/bcache/cache'',
                G_io_channel_new_file ''/sys/block/bcache0/bcache/detach'',
                G_io_channel_write_chars ''/sys/block/bcache0/bcache/detach'' ''abcd'',
                G_io_channel_shutdown ''/sys/block/bcache0/bcache/detach'',
                G_io_channel_new_file ''/sys/fs/bcache/abcd/stop'',
                G_io_channel_write_chars ''/sys/fs/bcache/abcd/stop'' ''1'',
                G_io_channel_shutdown ''/sys/fs/bcache/abcd/stop'',
                G_io_channel_new_file ''/sys/block/bcache0/bcache/stop'',
                G_io_channel_write_chars ''/sys/block/bcache0/bcache/stop'' ''1'',
                G_io_channel_shutdown ''/sys/block/bcache0/bcache/stop''], err = None\<rparr>)"
    using bcache_destroy_order [OF h1]
    by (simp add: Let_def d echo_str_to_file_def env_ok_def do_call_def)
  have 2: "bd_kbd_bcache_destroy env_set_stop_fails ''/dev/bcache0'' s_init =
     (False,
      \<lparr>trace = [Access ''/sys/block/bcache0/bcache/cache'',
                G_file_read_link ''/sys/block/bcache0/bcache/cache'',
                G_io_channel_new_file ''/sys/block/bcache0/bcache/detach'',
                G_io_channel_write_chars ''/sys/block/bcache0/bcache/detach'' ''abcd'',
                G_io_channel_shutdown ''/sys/block/bcache0/bcache/detach'',
                G_io_channel_new_file ''/sys/fs/bcache/abcd/stop''],
       err = Some (GError (Foreign ''g-file-error-quark'' 2)
                     (''Failed to stop the cache set: Failed to write '' @ sq @ ''1'' @ sq @ '' to file '' @ sq @
                      ''/sys/fs/bcache/abcd/stop'' @ sq @ '': Permission denied''))\<rparr>)"
    using bcache_destroy_order [OF h2]
    by (simp add: Let_def d echo_str_to_file_def env_set_stop_fails_def env_ok_def do_call_def
        g_prefix_error_def g_propagate_error_def)
  from 1 2 show ?thesis by (rule conjI)
qed

subsection \<open>An error slot that is already taken\<close>

lemma g_propagate_error_set: "err s \<noteq> None \<Longrightarrow> g_propagate_error ge s = s"
  by (auto simp add: g_propagate_error_def)

lemma g_set_error_set: "err s \<noteq> None \<Longrightarrow> g_set_error k msg s = s"
  by (simp add: g_set_error_def g_propagate_error_set)

lemma bcache_create_no_slash:
  assumes "bd_utils_exec_and_capture_output e (trace s)
             [''make-bcache'', ''-B'', backing_device, ''-C'', cache_device] = Inr output"
    and "find_set_uuid (g_strsplit output) 0 False None = (True, su)"
    and "CHR ''/'' \<notin> set backing_device"
  shows "bd_kbd_bcache_create e backing_device cache_device s =
           (Ret False, None,
            do_call (Bd_utils_exec_and_capture_output
                       [''make-bcache'', ''-B'', backing_device, ''-C'', cache_device]) s)"
  using assms by (simp add: bd_kbd_bcache_create_def strrchr_notin)

lemma bcache_detach_write_fails:
  assumes "access e (trace s) (''/sys/block/'' @ strip_dev d @ ''/bcache/cache'') = 0"
    and "g_file_read_link e (trace s @ [Access (''/sys/block/'' @ strip_dev d @ ''/bcache/cache'')])
           (''/sys/block/'' @ strip_dev d @ ''/bcache/cache'') = Inr (target @ ''/'' @ uuid)"
    and "CHR ''/'' \<notin> set uuid"
    and "echo_str_to_file e uuid (''/sys/block/'' @ strip_dev d @ ''/bcache/detach'')
           (do_call (G_file_read_link (''/sys/block/'' @ strip_dev d @ ''/bcache/cache''))
              (do_call (Access (''/sys/block/'' @ strip_dev d @ ''/bcache/cache'')) s)) = (False, s3)"
  shows "bd_kbd_bcache_detach e d s = (False, None, s3)"
proof -
  have "err s3 \<noteq> None"
    using echo_fail_err [of e uuid "''/sys/block/'' @ strip_dev d @ ''/bcache/detach''"
        "do_call (G_file_read_link (''/sys/block/'' @ strip_dev d @ ''/bcache/cache''))
              (do_call (Access (''/sys/block/'' @ strip_dev d @ ''/bcache/cache'')) s)"] assms(4)
    by simp
  then show ?thesis
    using assms by (simp add: bd_kbd_bcache_detach_def Let_def strrchr_append g_set_error_set)
qed

subsection \<open>Loading the zram module\<close>

lemma module_calls_append [simp]: "module_calls (a @ b) = module_calls a + module_calls b"
  by (simp add: module_calls_def)

lemma new_calls_append: "trace s' = trace s @ t \<Longrightarrow> new_calls s s' = t"
  by (simp add: new_calls_def)

lemma load_kernel_module_trace:
  "\<exists>t. trace (snd (load_kernel_module e m opts s)) = trace s @ t \<and> module_calls t = 1 \<and>
       (\<forall>c\<in>set t. call_path c = None)"
  by (auto simp add: load_kernel_module_def Let_def module_calls_def)

lemma unload_kernel_module_trace:
  "\<exists>t. trace (snd (unload_kernel_module e m s)) = trace s @ t \<and> module_calls t = 1 \<and>
       (\<forall>c\<in>set t. call_path c = None)"
  by (auto simp add: unload_kernel_module_def Let_def module_calls_def split: prod.splits)

lemma load_kernel_module_fail_err:
  "load_kernel_module e m opts s = (False, s1) \<Longrightarrow> err s = None \<Longrightarrow>
     \<exists>k msg. err s1 = Some (GError (Kbd k) msg)"
  by (auto simp add: load_kernel_module_def Let_def split: if_splits)

lemma unload_kernel_module_fail_err:
  "unload_kernel_module e m s = (False, s1) \<Longrightarrow> err s = None \<Longrightarrow>
     \<exists>k msg. err s1 = Some (GError (Kbd k) msg)"
  by (auto simp add: unload_kernel_module_def Let_def split: if_splits prod.splits)

lemma load_kernel_module_ok_err:
  "load_kernel_module e m opts s = (True, s1) \<Longrightarrow> err s1 = err s"
  by (auto simp add: load_kernel_module_def Let_def split: if_splits)

lemma unload_kernel_module_ok_err:
  "unload_kernel_module e m s = (True, s1) \<Longrightarrow> err s1 = err s"
  by (auto simp add: unload_kernel_module_def Let_def split: if_splits prod.splits)

lemma dec_values:
  "dec 0 = ''0''" "dec 1 = ''1''" "dec (Suc 0) = ''1''" "dec 2 = ''2''" "dec 4 = ''4''"
  "dec 16 = ''16''" "dec 17 = ''17''"
  by (simp_all add: dec.simps)

text \<open>
  C2. When the first \<open>load_kernel_module\<close> of \<open>bd_kbd_zram_create_devices\<close> fails and leaves
  the state \<open>s1\<close>:
  if the error in the slot matches \<open>BD_KBD_ERROR_MODULE_FAIL\<close>, the error is cleared and
  \<open>zram\<close> is unloaded. If the unload fails, the function returns \<open>FALSE\<close> in the state of
  the unload with the message of its error prefixed by \<open>zram module already loaded: \<close>,
  and the module loader was entered twice (the load and the unload: no second load). If
  the unload succeeds, the load is tried again, once: if it fails, the function returns
  \<open>FALSE\<close> in the state that load left, with that load's error, after three entries of the
  loader; if it succeeds, the function goes on to set the devices up, with an empty slot.
  If the error does not match, the function returns \<open>FALSE\<close> in the state \<open>s1\<close>, after
  one entry of the loader (no unload, no second load).
\<close>

theorem zram_create_load_fallback:
  assumes "load_kernel_module e ''zram'' (''num_devices='' @ dec (unat num_devices)) s = (False, s1)"
  shows "(let opts = ''num_devices='' @ dec (unat num_devices);
              u = unload_kernel_module e ''zram'' (g_clear_error s1);
              l = load_kernel_module e ''zram'' opts (snd u);
              r = bd_kbd_zram_create_devices e num_devices sizes nstreams s
          in (g_error_matches (err s1) BD_KBD_ERROR_MODULE_FAIL \<and> \<not> fst u \<longrightarrow>
                r = (Ret False, g_prefix_error ''zram module already loaded: '' (snd u)) \<and>
                (\<exists>k msg. err (snd u) = Some (GError (Kbd k) msg) \<and>
                         err (snd r) = Some (GError (Kbd k) (''zram module already loaded: '' @ msg))) \<and>
                module_calls (new_calls s (snd r)) = 2) \<and>
             (g_error_matches (err s1) BD_KBD_ERROR_MODULE_FAIL \<and> fst u \<and> \<not> fst l \<longrightarrow>
                r = (Ret False, snd l) \<and>
                (\<exists>k msg. err (snd r) = Some (GError (Kbd k) msg)) \<and>
                module_calls (new_calls s (snd r)) = 3) \<and>
             (g_error_matches (err s1) BD_KBD_ERROR_MODULE_FAIL \<and> fst u \<and> fst l \<longrightarrow>
                r = zram_set_devices e num_devices sizes nstreams (snd l) \<and>
                err (snd l) = None \<and>
                module_calls (new_calls s (snd l)) = 3) \<and>
             (\<not> g_error_matches (err s1) BD_KBD_ERROR_MODULE_FAIL \<longrightarrow>
                r = (Ret False, s1) \<and> module_calls (new_calls s (snd r)) = 1))"
proof -
  define opts where "opts = ''num_devices='' @ dec (unat num_devices)"
  define u where "u = unload_kernel_module e ''zram'' (g_clear_error s1)"
  define l where "l = load_kernel_module e ''zram'' opts (snd u)"
  define r where "r = bd_kbd_zram_create_devices e num_devices sizes nstreams s"
  have l1: "load_kernel_module e ''zram'' opts s = (False, s1)"
    using assms by (simp add: opts_def)
  obtain t1 where t1: "trace s1 = trace s @ t1" "module_calls t1 = 1"
    using load_kernel_module_trace [of e "''zram''" opts s] l1 by auto
  obtain t2 where t2: "trace (snd u) = trace s1 @ t2" "module_calls t2 = 1"
    using unload_kernel_module_trace [of e "''zram''" "g_clear_error s1"] by (auto simp add: u_def)
  obtain t3 where t3: "trace (snd l) = trace (snd u) @ t3" "module_calls t3 = 1"
    using load_kernel_module_trace [of e "''zram''" opts "snd u"] by (auto simp add: l_def)
  have n2: "module_calls (new_calls s (snd u)) = 2"
    using t1 t2 new_calls_append [of "snd u" s "t1 @ t2"] by simp
  have n3: "module_calls (new_calls s (snd l)) = 3"
    using t1 t2 t3 new_calls_append [of "snd l" s "t1 @ t2 @ t3"] by simp
  have n1: "module_calls (new_calls s s1) = 1"
    using t1 new_calls_append [of s1 s t1] by simp
  have a: "g_error_matches (err s1) BD_KBD_ERROR_MODULE_FAIL \<and> \<not> fst u \<longrightarrow>
                r = (Ret False, g_prefix_error ''zram module already loaded: '' (snd u)) \<and>
                (\<exists>k msg. err (snd u) = Some (GError (Kbd k) msg) \<and>
                         err (snd r) = Some (GError (Kbd k) (''zram module already loaded: '' @ msg))) \<and>
                module_calls (new_calls s (snd r)) = 2"
  proof
    assume h: "g_error_matches (err s1) BD_KBD_ERROR_MODULE_FAIL \<and> \<not> fst u"
    then have u': "unload_kernel_module e ''zram'' (g_clear_error s1) = (False, snd u)"
      by (simp add: u_def prod_eq_iff)
    have rr: "r = (Ret False, g_prefix_error ''zram module already loaded: '' (snd u))"
      using h l1 u' by (simp add: r_def bd_kbd_zram_create_devices_def zram_load_module_def opts_def)
    obtain k msg where km: "err (snd u) = Some (GError (Kbd k) msg)"
      using unload_kernel_module_fail_err [OF u'] by auto
    have "new_calls s (snd r) = new_calls s (snd u)"
      by (simp add: rr new_calls_def)
    with rr km n2 show "r = (Ret False, g_prefix_error ''zram module already loaded: '' (snd u)) \<and>
                (\<exists>k msg. err (snd u) = Some (GError (Kbd k) msg) \<and>
                         err (snd r) = Some (GError (Kbd k) (''zram module already loaded: '' @ msg))) \<and>
                module_calls (new_calls s (snd r)) = 2"
      by simp
  qed
  have ue: "fst u \<Longrightarrow> err (snd u) = None"
    using unload_kernel_module_ok_err [of e "''zram''" "g_clear_error s1" "snd u"]
    by (simp add: u_def prod_eq_iff)
  have b: "g_error_matches (err s1) BD_KBD_ERROR_MODULE_FAIL \<and> fst u \<and> \<not> fst l \<longrightarrow>
                r = (Ret False, snd l) \<and>
                (\<exists>k msg. err (snd r) = Some (GError (Kbd k) msg)) \<and>
                module_calls (new_calls s (snd r)) = 3"
  proof
    assume h: "g_error_matches (err s1) BD_KBD_ERROR_MODULE_FAIL \<and> fst u \<and> \<not> fst l"
    then have u': "unload_kernel_module e ''zram'' (g_clear_error s1) = (True, snd u)"
      and l': "load_kernel_module e ''zram'' opts (snd u) = (False, snd l)"
      by (simp_all add: u_def l_def prod_eq_iff)
    have rr: "r = (Ret False, snd l)"
      using h l1 u' l' by (simp add: r_def bd_kbd_zram_create_devices_def zram_load_module_def opts_def)
    obtain k msg where "err (snd l) = Some (GError (Kbd k) msg)"
      using load_kernel_module_fail_err [OF l'] ue h by auto
    with rr n3 show "r = (Ret False, snd l) \<and>
                (\<exists>k msg. err (snd r) = Some (GError (Kbd k) msg)) \<and>
                module_calls (new_calls s (snd r)) = 3"
      by simp
  qed
  have c: "g_error_matches (err s1) BD_KBD_ERROR_MODULE_FAIL \<and> fst u \<and> fst l \<longrightarrow>
                r = zram_set_devices e num_devices sizes nstreams (snd l) \<and>
                err (snd l) = None \<and>
                module_calls (new_calls s (snd l)) = 3"
  proof
    assume h: "g_error_matches (err s1) BD_KBD_ERROR_MODULE_FAIL \<and> fst u \<and> fst l"
    then have u': "unload_kernel_module e ''zram'' (g_clear_error s1) = (True, snd u)"
      and l': "load_kernel_module e ''zram'' opts (snd u) = (True, snd l)"
      by (simp_all add: u_def l_def prod_eq_iff)
    have rr: "r = zram_set_devices e num_devices sizes nstreams (snd l)"
      using h l1 u' l' by (simp add: r_def bd_kbd_zram_create_devices_def zram_load_module_def opts_def)
    have "err (snd l) = None"
      using load_kernel_module_ok_err [OF l'] ue h by simp
    with rr n3 show "r = zram_set_devices e num_devices sizes nstreams (snd l) \<and>
                err (snd l) = None \<and>
                module_calls (new_calls s (snd l)) = 3"
      by simp
  qed
  have d: "\<not> g_error_matches (err s1) BD_KBD_ERROR_MODULE_FAIL \<longrightarrow>
                r = (Ret False, s1) \<and> module_calls (new_calls s (snd r)) = 1"
  proof
    assume h: "\<not> g_error_matches (err s1) BD_KBD_ERROR_MODULE_FAIL"
    have rr: "r = (Ret False, s1)"
      using h l1 by (simp add: r_def bd_kbd_zram_create_devices_def zram_load_module_def opts_def)
    with n1 show "r = (Ret False, s1) \<and> module_calls (new_calls s (snd r)) = 1" by simp
  qed
  show ?thesis
    unfolding Let_def
    using a b c d
    unfolding opts_def u_def l_def r_def
    by blast
qed

theorem zram_create_load_fallback_witness:
  "bd_kbd_zram_create_devices env_busy 2 [4096, 8192] None s_init =
     (Ret False,
      \<lparr>trace = [Kmod_new, Kmod_module_new_from_name ''zram'', Kmod_module_get_path ''zram'',
                Kmod_module_insert_module ''zram'' ''num_devices=2'',
                Kmod_new, Kmod_module_new_from_loaded, Kmod_module_remove_module ''zram''],
       err = Some (GError (Kbd BD_KBD_ERROR_MODULE_FAIL)
                     (''zram module already loaded: Failed to unload the module '' @ sq @ ''zram'' @ sq @
                      '': errno 16''))\<rparr>) \<and>
   bd_kbd_zram_create_devices env_stale 2 [4096, 8192] None s_init =
     zram_set_devices env_stale 2 [4096, 8192] None
       \<lparr>trace = [Kmod_new, Kmod_module_new_from_name ''zram'', Kmod_module_get_path ''zram'',
                 Kmod_module_insert_module ''zram'' ''num_devices=2'',
                 Kmod_new, Kmod_module_new_from_loaded, Kmod_module_remove_module ''zram'',
                 Kmod_new, Kmod_module_new_from_name ''zram'', Kmod_module_get_path ''zram'',
                 Kmod_module_insert_module ''zram'' ''num_devices=2''],
        err = None\<rparr>"
proof -
  let ?s1 = "\<lparr>trace = [Kmod_new, Kmod_module_new_from_name ''zram'', Kmod_module_get_path ''zram'',
                Kmod_module_insert_module ''zram'' ''num_devices=2''],
              err = Some (GError (Kbd BD_KBD_ERROR_MODULE_FAIL)
                     (''Failed to load the module '' @ sq @ ''zram'' @ sq @ '' with options '' @ sq @
                      ''num_devices=2'' @ sq @ '': errno 17''))\<rparr>"
  have h1: "load_kernel_module env_busy ''zram'' (''num_devices='' @ dec (unat (2::64 word))) s_init = (False, ?s1)"
    by (simp add: load_kernel_module_def env_busy_def env_ok_def s_init_def do_call_def Let_def
        g_set_error_def g_propagate_error_def dec_values)
  have h2: "load_kernel_module env_stale ''zram'' (''num_devices='' @ dec (unat (2::64 word))) s_init = (False, ?s1)"
    by (simp add: load_kernel_module_def env_stale_def env_ok_def s_init_def do_call_def Let_def
        g_set_error_def g_propagate_error_def dec_values)
  have 1: "bd_kbd_zram_create_devices env_busy 2 [4096, 8192] None s_init =
     (Ret False,
      \<lparr>trace = [Kmod_new, Kmod_module_new_from_name ''zram'', Kmod_module_get_path ''zram'',
                Kmod_module_insert_module ''zram'' ''num_devices=2'',
                Kmod_new, Kmod_module_new_from_loaded, Kmod_module_remove_module ''zram''],
       err = Some (GError (Kbd BD_KBD_ERROR_MODULE_FAIL)
                     (''zram module already loaded: Failed to unload the module '' @ sq @ ''zram'' @ sq @
                      '': errno 16''))\<rparr>)"
    using zram_create_load_fallback [OF h1, of "[4096, 8192]" None]
    by (simp add: Let_def g_error_matches_def unload_kernel_module_def env_busy_def env_ok_def
        do_call_def g_set_error_def g_propagate_error_def g_clear_error_def g_prefix_error_def dec_values)
  have 2: "bd_kbd_zram_create_devices env_stale 2 [4096, 8192] None s_init =
     zram_set_devices env_stale 2 [4096, 8192] None
       \<lparr>trace = [Kmod_new, Kmod_module_new_from_name ''zram'', Kmod_module_get_path ''zram'',
                 Kmod_module_insert_module ''zram'' ''num_devices=2'',
                 Kmod_new, Kmod_module_new_from_loaded, Kmod_module_remove_module ''zram'',
                 Kmod_new, Kmod_module_new_from_name ''zram'', Kmod_module_get_path ''zram'',
                 Kmod_module_insert_module ''zram'' ''num_devices=2''],
        err = None\<rparr>"
    using zram_create_load_fallback [OF h2, of "[4096, 8192]" None]
    by (simp add: Let_def g_error_matches_def unload_kernel_module_def load_kernel_module_def
        env_stale_def env_ok_def
        do_call_def g_set_error_def g_propagate_error_def g_clear_error_def g_prefix_error_def dec_values)
  from 1 2 show ?thesis by (rule conjI)
qed

subsection \<open>Setting the zram devices up\<close>

lemma streams_path_write: "call_path c = Some (zram_streams_path i) \<Longrightarrow> is_streams_write c"
  by (simp add: is_streams_write_def zram_streams_path_def suffix_def)

lemma disksize_path_write: "call_path c = Some (zram_disksize_path i) \<Longrightarrow> is_disksize_write c"
  by (simp add: is_disksize_write_def zram_disksize_path_def suffix_def)

lemma suffix_last: "suffix xs p \<Longrightarrow> xs \<noteq> [] \<Longrightarrow> last p = last xs"
  by (auto simp add: suffix_def)

lemma streams_not_disksize: "is_streams_write c \<Longrightarrow> \<not> is_disksize_write c"
  by (auto simp add: is_streams_write_def is_disksize_write_def split: option.splits
      dest!: suffix_last)

lemma no_path_not_write:
  "call_path c = None \<Longrightarrow> \<not> is_disksize_write c \<and> \<not> is_streams_write c"
  by (simp add: is_streams_write_def is_disksize_write_def)

lemma zram_streams_loop_trace:
  "\<exists>t. trace (snd (zram_streams_loop e ns n i s)) = trace s @ t \<and> (\<forall>c\<in>set t. is_streams_write c)"
proof (induction e ns n i s rule: zram_streams_loop.induct)
  case (1 e ns n i s)
  show ?case
  proof (cases "i < n \<and> i < length ns")
    case False
    then show ?thesis by (subst zram_streams_loop.simps) auto
  next
    case True
    obtain ok s' where w: "echo_str_to_file e (dec (unat (ns ! i))) (zram_streams_path i) s = (ok, s')"
      by (cases "echo_str_to_file e (dec (unat (ns ! i))) (zram_streams_path i) s")
    obtain k where k: "trace s' = trace s @ take k (echo_calls (zram_streams_path i) (dec (unat (ns ! i))))"
      using echo_trace_snd [of e "dec (unat (ns ! i))" "zram_streams_path i" s] w by auto
    have a: "\<forall>c\<in>set (take k (echo_calls (zram_streams_path i) (dec (unat (ns ! i))))). is_streams_write c"
      by (auto dest!: echo_calls_path intro: streams_path_write)
    show ?thesis
    proof (cases ok)
      case False
      with True w k a show ?thesis by (subst zram_streams_loop.simps) auto
    next
      case ok: True
      from "1.IH" [of ok s'] True w ok
      obtain t where "trace (snd (zram_streams_loop e ns n (i + 1) s')) = trace s' @ t"
        "\<forall>c\<in>set t. is_streams_write c" by auto
      with True w k a ok show ?thesis
        by (subst zram_streams_loop.simps) auto
    qed
  qed
qed

lemma zram_sizes_loop_trace:
  "\<exists>t. trace (snd (zram_sizes_loop e sizes n i s)) = trace s @ t \<and> (\<forall>c\<in>set t. is_disksize_write c)"
proof (induction e sizes n i s rule: zram_sizes_loop.induct)
  case (1 e sizes n i s)
  show ?case
  proof (cases "i < n \<and> i < length sizes")
    case False
    then show ?thesis by (subst zram_sizes_loop.simps) auto
  next
    case True
    obtain ok s' where w: "echo_str_to_file e (dec (unat (sizes ! i))) (zram_disksize_path i) s = (ok, s')"
      by (cases "echo_str_to_file e (dec (unat (sizes ! i))) (zram_disksize_path i) s")
    obtain k where k: "trace s' = trace s @ take k (echo_calls (zram_disksize_path i) (dec (unat (sizes ! i))))"
      using echo_trace_snd [of e "dec (unat (sizes ! i))" "zram_disksize_path i" s] w by auto
    have a: "\<forall>c\<in>set (take k (echo_calls (zram_disksize_path i) (dec (unat (sizes ! i))))). is_disksize_write c"
      by (auto dest!: echo_calls_path intro: disksize_path_write)
    show ?thesis
    proof (cases ok)
      case False
      with True w k a show ?thesis by (subst zram_sizes_loop.simps) auto
    next
      case ok: True
      from "1.IH" [of ok s'] True w ok
      obtain t where "trace (snd (zram_sizes_loop e sizes n (i + 1) s')) = trace s' @ t"
        "\<forall>c\<in>set t. is_disksize_write c" by auto
      with True w k a ok show ?thesis
        by (subst zram_sizes_loop.simps) auto
    qed
  qed
qed

lemma zram_load_module_trace:
  "\<exists>t. trace (snd (zram_load_module e n s)) = trace s @ t \<and> (\<forall>c\<in>set t. call_path c = None)"
proof -
  define opts where "opts = ''num_devices='' @ dec (unat n)"
  obtain ok1 s1 where l1: "load_kernel_module e ''zram'' opts s = (ok1, s1)"
    by (cases "load_kernel_module e ''zram'' opts s")
  obtain ok2 s2 where u: "unload_kernel_module e ''zram'' (g_clear_error s1) = (ok2, s2)"
    by (cases "unload_kernel_module e ''zram'' (g_clear_error s1)")
  obtain ok3 s3 where l2: "load_kernel_module e ''zram'' opts s2 = (ok3, s3)"
    by (cases "load_kernel_module e ''zram'' opts s2")
  obtain t1 where t1: "trace s1 = trace s @ t1" "\<forall>c\<in>set t1. call_path c = None"
    using load_kernel_module_trace [of e "''zram''" opts s] l1 by auto
  obtain t2 where t2: "trace s2 = trace s1 @ t2" "\<forall>c\<in>set t2. call_path c = None"
    using unload_kernel_module_trace [of e "''zram''" "g_clear_error s1"] u by auto
  obtain t3 where t3: "trace s3 = trace s2 @ t3" "\<forall>c\<in>set t3. call_path c = None"
    using load_kernel_module_trace [of e "''zram''" opts s2] l2 by auto
  have "trace (snd (zram_load_module e n s)) = trace s1 \<or>
        trace (snd (zram_load_module e n s)) = trace s2 \<or>
        trace (snd (zram_load_module e n s)) = trace s3"
    using l1 u l2 by (simp add: zram_load_module_def opts_def Let_def)
  then show ?thesis
  proof (elim disjE)
    assume "trace (snd (zram_load_module e n s)) = trace s1"
    with t1 show ?thesis by auto
  next
    assume "trace (snd (zram_load_module e n s)) = trace s2"
    with t1 t2 have "trace (snd (zram_load_module e n s)) = trace s @ (t1 @ t2) \<and> (\<forall>c\<in>set (t1 @ t2). call_path c = None)"
      by auto
    then show ?thesis by blast
  next
    assume "trace (snd (zram_load_module e n s)) = trace s3"
    with t1 t2 t3 have "trace (snd (zram_load_module e n s)) = trace s @ (t1 @ t2 @ t3) \<and> (\<forall>c\<in>set (t1 @ t2 @ t3). call_path c = None)"
      by auto
    then show ?thesis by blast
  qed
qed

lemma zram_set_devices_trace:
  "\<exists>ts tz. trace (snd (zram_set_devices e n sizes nstreams s)) = trace s @ ts @ tz \<and>
           (\<forall>c\<in>set ts. is_streams_write c) \<and> (\<forall>c\<in>set tz. is_disksize_write c)"
proof -
  define p where "p = (case nstreams of Some ns \<Rightarrow> zram_streams_loop e ns (unat n) 0 s | None \<Rightarrow> (Ret True, s))"
  have "\<exists>ts. trace (snd p) = trace s @ ts \<and> (\<forall>c\<in>set ts. is_streams_write c)"
    using zram_streams_loop_trace [of e _ "unat n" 0 s]
    by (cases nstreams) (simp_all add: p_def)
  then obtain ts where ts: "trace (snd p) = trace s @ ts" "\<forall>c\<in>set ts. is_streams_write c"
    by blast
  obtain tz where tz: "trace (snd (zram_sizes_loop e sizes (unat n) 0 (snd p))) = trace (snd p) @ tz"
    "\<forall>c\<in>set tz. is_disksize_write c"
    using zram_sizes_loop_trace [of e sizes "unat n" 0 "snd p"] by blast
  have r: "zram_set_devices e n sizes nstreams s =
             (if fst p = Ret True then zram_sizes_loop e sizes (unat n) 0 (snd p) else p)"
    unfolding zram_set_devices_def p_def [symmetric]
    by (cases p) (simp split: outcome.splits bool.splits)
  show ?thesis
  proof (cases "fst p = Ret True")
    case True
    with r ts tz have "trace (snd (zram_set_devices e n sizes nstreams s)) = trace s @ ts @ tz"
      by simp
    with ts tz show ?thesis by blast
  next
    case False
    with r ts have "trace (snd (zram_set_devices e n sizes nstreams s)) = trace s @ ts @ [] \<and>
       (\<forall>c\<in>set []. is_disksize_write c)"
      by simp
    with ts show ?thesis by blast
  qed
qed

lemma zram_create_devices_trace:
  "\<exists>tm ts tz. trace (snd (bd_kbd_zram_create_devices e n sizes nstreams s)) = trace s @ tm @ ts @ tz \<and>
      (\<forall>c\<in>set tm. call_path c = None) \<and>
      (\<forall>c\<in>set ts. is_streams_write c) \<and> (\<forall>c\<in>set tz. is_disksize_write c)"
proof -
  obtain r s4 where m: "zram_load_module e n s = (r, s4)"
    by (cases "zram_load_module e n s")
  obtain tm where tm: "trace s4 = trace s @ tm" "\<forall>c\<in>set tm. call_path c = None"
    using zram_load_module_trace [of e n s] m by auto
  show ?thesis
  proof (cases r)
    case (Some b)
    with m tm have "trace (snd (bd_kbd_zram_create_devices e n sizes nstreams s)) = trace s @ tm @ [] @ [] \<and>
       (\<forall>c\<in>set []. is_streams_write c) \<and> (\<forall>c\<in>set []. is_disksize_write c)"
      by (simp add: bd_kbd_zram_create_devices_def)
    with tm show ?thesis by blast
  next
    case None
    obtain ts tz where t: "trace (snd (zram_set_devices e n sizes nstreams s4)) = trace s4 @ ts @ tz"
           "\<forall>c\<in>set ts. is_streams_write c" "\<forall>c\<in>set tz. is_disksize_write c"
      using zram_set_devices_trace [of e n sizes nstreams s4] by blast
    with None m tm have "trace (snd (bd_kbd_zram_create_devices e n sizes nstreams s)) = trace s @ tm @ ts @ tz"
      by (simp add: bd_kbd_zram_create_devices_def)
    with tm t show ?thesis by blast
  qed
qed

lemma zram_streams_loop_split:
  "j \<le> i \<Longrightarrow> i \<le> n \<Longrightarrow>
   zram_streams_loop e ns n j s =
     (case zram_streams_loop e ns i j s of
        (Ret True, si) \<Rightarrow> zram_streams_loop e ns n i si
      | (Ret False, sf) \<Rightarrow> (Ret False, sf)
      | (UB, sf) \<Rightarrow> (UB, sf))"
proof (induction e ns i j s rule: zram_streams_loop.induct)
  case (1 e ns i j s)
  show ?case
  proof (cases "j < i")
    case False
    with "1.prems" have "j = i" by simp
    then show ?thesis
      by (subst (2) zram_streams_loop.simps) simp
  next
    case lt: True
    then have jn: "j < n" using "1.prems" by simp
    show ?thesis
    proof (cases "j < length ns")
      case False
      with lt jn show ?thesis
        by (subst zram_streams_loop.simps, subst (2) zram_streams_loop.simps) simp
    next
      case len: True
      obtain ok s' where w: "echo_str_to_file e (dec (unat (ns ! j))) (zram_streams_path j) s = (ok, s')"
        by (cases "echo_str_to_file e (dec (unat (ns ! j))) (zram_streams_path j) s")
      show ?thesis
      proof (cases ok)
        case False
        with lt jn len w show ?thesis
          by (subst zram_streams_loop.simps, subst (2) zram_streams_loop.simps) simp
      next
        case True
        have ih: "zram_streams_loop e ns n (j + 1) s' =
                    (case zram_streams_loop e ns i (j + 1) s' of
                       (Ret True, si) \<Rightarrow> zram_streams_loop e ns n i si
                     | (Ret False, sf) \<Rightarrow> (Ret False, sf)
                     | (UB, sf) \<Rightarrow> (UB, sf))"
          using "1.IH" [of ok s'] lt len w True "1.prems" by simp
        have a: "zram_streams_loop e ns n j s = zram_streams_loop e ns n (j + 1) s'"
          using jn len w True by (subst zram_streams_loop.simps) simp
        have b: "zram_streams_loop e ns i j s = zram_streams_loop e ns i (j + 1) s'"
          using lt len w True by (subst zram_streams_loop.simps) simp
        show ?thesis unfolding a b by (rule ih)
      qed
    qed
  qed
qed

text \<open>
  C3. In every run of \<open>bd_kbd_zram_create_devices\<close> with \<open>nstreams\<close> given, the calls it
  makes are a list \<open>a\<close> followed by a list \<open>b\<close>, where no call of \<open>a\<close> is about a
  \<open>disksize\<close> file and no call of \<open>b\<close> is about a \<open>max_comp_streams\<close> file: every write of
  a stream count is before every write of a size. And when the module is loaded, the
  stream counts of the indices below \<open>i\<close> have been written (the loop with the bound \<open>i\<close>
  ends in \<open>si\<close>) and the write for index \<open>i\<close> fails, the function returns \<open>FALSE\<close> with
  the error of that write behind a prefix that names \<open>/dev/zram<i>\<close>, and no call made
  since the start is about a \<open>disksize\<close> file.
\<close>

theorem zram_streams_before_sizes:
  "(\<exists>a b. new_calls s (snd (bd_kbd_zram_create_devices e num_devices sizes (Some nstreams) s)) = a @ b \<and>
          \<not> list_ex is_disksize_write a \<and> \<not> list_ex is_streams_write b) \<and>
   (zram_load_module e num_devices s = (None, s4) \<and> i < unat num_devices \<and> i < length nstreams \<and>
    zram_streams_loop e nstreams i 0 s4 = (Ret True, si) \<and>
    echo_str_to_file e (dec (unat (nstreams ! i))) (zram_streams_path i) si = (False, sf) \<longrightarrow>
      bd_kbd_zram_create_devices e num_devices sizes (Some nstreams) s =
        (Ret False,
         g_prefix_error (''Failed to set number of compression streams for '' @ sq @
                         ''/dev/zram'' @ dec i @ sq @ '': '') sf) \<and>
      \<not> list_ex is_disksize_write (new_calls s sf))"
proof (intro conjI impI)
  obtain tm ts tz where t:
    "trace (snd (bd_kbd_zram_create_devices e num_devices sizes (Some nstreams) s)) = trace s @ tm @ ts @ tz"
    "\<forall>c\<in>set tm. call_path c = None" "\<forall>c\<in>set ts. is_streams_write c" "\<forall>c\<in>set tz. is_disksize_write c"
    using zram_create_devices_trace [of e num_devices sizes "Some nstreams" s] by blast
  have 1: "new_calls s (snd (bd_kbd_zram_create_devices e num_devices sizes (Some nstreams) s)) = (tm @ ts) @ tz"
    using t(1) by (simp add: new_calls_def)
  have 2: "\<not> list_ex is_disksize_write (tm @ ts)"
    using t(2,3) by (auto simp add: list_ex_iff dest: no_path_not_write streams_not_disksize)
  have 3: "\<not> list_ex is_streams_write tz"
    using t(4) by (auto simp add: list_ex_iff dest: streams_not_disksize)
  from 1 2 3 show "\<exists>a b. new_calls s (snd (bd_kbd_zram_create_devices e num_devices sizes (Some nstreams) s)) = a @ b \<and>
          \<not> list_ex is_disksize_write a \<and> \<not> list_ex is_streams_write b"
    by blast
next
  assume h: "zram_load_module e num_devices s = (None, s4) \<and> i < unat num_devices \<and> i < length nstreams \<and>
    zram_streams_loop e nstreams i 0 s4 = (Ret True, si) \<and>
    echo_str_to_file e (dec (unat (nstreams ! i))) (zram_streams_path i) si = (False, sf)"
  let ?sf = "g_prefix_error (''Failed to set number of compression streams for '' @ sq @
                         ''/dev/zram'' @ dec i @ sq @ '': '') sf"
  have f: "zram_streams_loop e nstreams (unat num_devices) i si = (Ret False, ?sf)"
    using h by (subst zram_streams_loop.simps) simp
  have "zram_streams_loop e nstreams (unat num_devices) 0 s4 = (Ret False, ?sf)"
    using zram_streams_loop_split [of 0 i "unat num_devices" e nstreams s4] h f by simp
  with h show r: "bd_kbd_zram_create_devices e num_devices sizes (Some nstreams) s = (Ret False, ?sf)"
    by (simp add: bd_kbd_zram_create_devices_def zram_set_devices_def)
  obtain tm where tm: "trace s4 = trace s @ tm" "\<forall>c\<in>set tm. call_path c = None"
    using zram_load_module_trace [of e num_devices s] h by auto
  obtain ts where ts: "trace si = trace s4 @ ts" "\<forall>c\<in>set ts. is_streams_write c"
    using zram_streams_loop_trace [of e nstreams i 0 s4] h by auto
  obtain k where k: "trace sf = trace si @ take k (echo_calls (zram_streams_path i) (dec (unat (nstreams ! i))))"
    using echo_trace_snd [of e "dec (unat (nstreams ! i))" "zram_streams_path i" si] h by auto
  have w: "\<forall>c\<in>set (take k (echo_calls (zram_streams_path i) (dec (unat (nstreams ! i))))). is_streams_write c"
    by (auto dest!: echo_calls_path intro: streams_path_write)
  have "new_calls s sf = tm @ ts @ take k (echo_calls (zram_streams_path i) (dec (unat (nstreams ! i))))"
    using tm ts k by (simp add: new_calls_def)
  then show "\<not> list_ex is_disksize_write (new_calls s sf)"
    using tm(2) ts(2) w
    by (auto simp add: list_ex_iff dest: no_path_not_write streams_not_disksize)
qed

theorem zram_streams_before_sizes_witness:
  "bd_kbd_zram_create_devices env_streams_fail 2 [4096, 8192] (Some [4, 2]) s_init =
     (Ret False,
      \<lparr>trace = [Kmod_new, Kmod_module_new_from_name ''zram'', Kmod_module_get_path ''zram'',
                Kmod_module_insert_module ''zram'' ''num_devices=2'',
                G_io_channel_new_file ''/sys/block/zram0/max_comp_streams'',
                G_io_channel_write_chars ''/sys/block/zram0/max_comp_streams'' ''4'',
                G_io_channel_shutdown ''/sys/block/zram0/max_comp_streams'',
                G_io_channel_new_file ''/sys/block/zram1/max_comp_streams'',
                G_io_channel_write_chars ''/sys/block/zram1/max_comp_streams'' ''2'',
                G_io_channel_shutdown ''/sys/block/zram1/max_comp_streams''],
       err = Some (GError (Foreign ''g-io-channel-error-quark'' 1)
                     (''Failed to set number of compression streams for '' @ sq @ ''/dev/zram1'' @ sq @
                      '': Failed to flush and close the file '' @ sq @
                      ''/sys/block/zram1/max_comp_streams'' @ sq @ '': Invalid argument''))\<rparr>)"
proof -
  let ?s4 = "\<lparr>trace = [Kmod_new, Kmod_module_new_from_name ''zram'', Kmod_module_get_path ''zram'',
                Kmod_module_insert_module ''zram'' ''num_devices=2''], err = None\<rparr>"
  let ?si = "\<lparr>trace = [Kmod_new, Kmod_module_new_from_name ''zram'', Kmod_module_get_path ''zram'',
                Kmod_module_insert_module ''zram'' ''num_devices=2'',
                G_io_channel_new_file ''/sys/block/zram0/max_comp_streams'',
                G_io_channel_write_chars ''/sys/block/zram0/max_comp_streams'' ''4'',
                G_io_channel_shutdown ''/sys/block/zram0/max_comp_streams''], err = None\<rparr>"
  let ?sf = "\<lparr>trace = [Kmod_new, Kmod_module_new_from_name ''zram'', Kmod_module_get_path ''zram'',
                Kmod_module_insert_module ''zram'' ''num_devices=2'',
                G_io_channel_new_file ''/sys/block/zram0/max_comp_streams'',
                G_io_channel_write_chars ''/sys/block/zram0/max_comp_streams'' ''4'',
                G_io_channel_shutdown ''/sys/block/zram0/max_comp_streams'',
                G_io_channel_new_file ''/sys/block/zram1/max_comp_streams'',
                G_io_channel_write_chars ''/sys/block/zram1/max_comp_streams'' ''2'',
                G_io_channel_shutdown ''/sys/block/zram1/max_comp_streams''],
              err = Some (GError (Foreign ''g-io-channel-error-quark'' 1)
                     (''Failed to flush and close the file '' @ sq @
                      ''/sys/block/zram1/max_comp_streams'' @ sq @ '': Invalid argument''))\<rparr>"
  have m: "zram_load_module env_streams_fail 2 s_init = (None, ?s4)"
    by (simp add: zram_load_module_def load_kernel_module_def env_streams_fail_def env_ok_def
        s_init_def do_call_def Let_def dec_values)
  have l: "zram_streams_loop env_streams_fail [4, 2] 1 0 ?s4 = (Ret True, ?si)"
    by (simp add: zram_streams_loop.simps zram_streams_path_def echo_str_to_file_def
        env_streams_fail_def env_ok_def do_call_def Let_def dec_values)
  have w: "echo_str_to_file env_streams_fail (dec (unat ([4, 2 :: 64 word] ! 1))) (zram_streams_path 1) ?si =
             (False, ?sf)"
    by (simp add: zram_streams_path_def echo_str_to_file_def env_streams_fail_def env_ok_def
        do_call_def Let_def dec_values g_prefix_error_def g_propagate_error_def)
  have h: "zram_load_module env_streams_fail 2 s_init = (None, ?s4) \<and> 1 < unat (2 :: 64 word) \<and>
           1 < length [4, 2 :: 64 word] \<and>
           zram_streams_loop env_streams_fail [4, 2] 1 0 ?s4 = (Ret True, ?si) \<and>
           echo_str_to_file env_streams_fail (dec (unat ([4, 2 :: 64 word] ! 1))) (zram_streams_path 1) ?si =
             (False, ?sf)"
    using m l w by simp
  from zram_streams_before_sizes [of s_init env_streams_fail 2 "[4096, 8192]" "[4, 2]" ?s4 1 ?si ?sf] h
  have "bd_kbd_zram_create_devices env_streams_fail 2 [4096, 8192] (Some [4, 2]) s_init =
        (Ret False,
         g_prefix_error (''Failed to set number of compression streams for '' @ sq @
                         ''/dev/zram'' @ dec 1 @ sq @ '': '') ?sf)"
    by blast
  then show ?thesis
    by (simp add: g_prefix_error_def dec_values)
qed

subsection \<open>The parse error of \<open>bd_kbd_bcache_create\<close>\<close>

lemma no_kbd_error_simps [simp]:
  "no_kbd_error None" "no_kbd_error (Some (GError (Foreign d c) m))"
  "\<not> no_kbd_error (Some (GError (Kbd k) m))"
  by (simp_all add: no_kbd_error_def)

lemma no_kbd_error_prefix [simp]:
  "no_kbd_error (case eo of None \<Rightarrow> None | Some ge \<Rightarrow> Some (GError (kind ge) (p @ message ge))) =
     no_kbd_error eo"
  by (auto simp add: no_kbd_error_def split: option.splits error_kind.splits)

lemma echo_no_kbd_error:
  "err s = None \<Longrightarrow> no_kbd_error (err (snd (echo_str_to_file e str p s)))"
  by (auto simp add: echo_str_to_file_def Let_def foreign_def split: option.splits prod.splits)

lemma bcache_create_found_error:
  assumes "err s = None"
    and "bd_utils_exec_and_capture_output e (trace s)
           [''make-bcache'', ''-B'', backing_device, ''-C'', cache_device] = Inr output"
    and "find_set_uuid (g_strsplit output) 0 False None = (True, su)"
  shows "err (snd (snd (bd_kbd_bcache_create e backing_device cache_device s))) \<noteq>
           Some (GError (Kbd BD_KBD_ERROR_BCACHE_PARSE) msg)"
proof -
  let ?argv = "[''make-bcache'', ''-B'', backing_device, ''-C'', cache_device]"
  let ?s1 = "do_call (Bd_utils_exec_and_capture_output ?argv) s"
  let ?r = "bd_kbd_bcache_create e backing_device cache_device s"
  have e1: "err ?s1 = None" using assms(1) by simp
  show ?thesis
  proof (cases "strrchr backing_device CHR ''/''")
    case None
    with assms show ?thesis by (simp add: bd_kbd_bcache_create_def)
  next
    case (Some dev_name0)
    obtain ok2 s2 where w: "echo_str_to_file e backing_device ''/sys/fs/bcache/register'' ?s1 = (ok2, s2)"
      by (cases "echo_str_to_file e backing_device ''/sys/fs/bcache/register'' ?s1")
    have n2: "no_kbd_error (err s2)"
      using echo_no_kbd_error [OF e1, of e backing_device "''/sys/fs/bcache/register''"] w by simp
    show ?thesis
    proof (cases ok2)
      case False
      with assms Some w n2 show ?thesis
        by (auto simp add: bd_kbd_bcache_create_def)
    next
      case True
      then have e2: "err s2 = None"
        using echo_ok_err [of e backing_device "''/sys/fs/bcache/register''" ?s1] w e1 by simp
      let ?pattern = "''/sys/block/*/slaves/'' @ tl dev_name0"
      let ?s3 = "do_call (Glob ?pattern) s2"
      obtain ret gl_pathv where g: "glob e (trace s2) ?pattern = (ret, gl_pathv)"
        by (cases "glob e (trace s2) ?pattern")
      have e3: "err ?s3 = None" using e2 by simp
      have att: "\<And>u d. no_kbd_error (err (snd (bd_kbd_bcache_attach e u d ?s3)))"
        unfolding bd_kbd_bcache_attach_def by (rule echo_no_kbd_error [OF e3])
      have "no_kbd_error (err (snd (snd ?r))) \<or>
            (\<exists>m. err (snd (snd ?r)) = Some (GError (Kbd BD_KBD_ERROR_BCACHE_SETUP_FAIL) m))"
      proof (cases "ret \<noteq> 0")
        case True
        then have "snd (snd ?r) = g_set_error BD_KBD_ERROR_BCACHE_SETUP_FAIL
                     (''Failed to determine bcache device name for '' @ sq @ tl dev_name0 @ sq) ?s3"
          using assms Some w \<open>ok2\<close> g by (simp add: bd_kbd_bcache_create_def Let_def)
        then show ?thesis using e3 by simp
      next
        case r0: False
        show ?thesis
        proof (cases gl_pathv)
          case Nil
          then have "snd (snd ?r) = ?s3"
            using assms Some w \<open>ok2\<close> g r0 by (simp add: bd_kbd_bcache_create_def Let_def)
          then show ?thesis using e3 by simp
        next
          case (Cons path others)
          show ?thesis
          proof (cases "path_dev_name path")
            case (Inl r)
            then have "snd (snd ?r) = ?s3"
              using assms Some w \<open>ok2\<close> g r0 Cons by (simp add: bd_kbd_bcache_create_def Let_def)
            then show ?thesis using e3 by simp
          next
            case (Inr dev)
            show ?thesis
            proof (cases su)
              case None
              then have "snd (snd ?r) = ?s3"
                using assms Some w \<open>ok2\<close> g r0 Cons Inr by (simp add: bd_kbd_bcache_create_def Let_def)
              then show ?thesis using e3 by simp
            next
              case (Some uuid)
              obtain ok4 s4 where a4: "bd_kbd_bcache_attach e uuid dev ?s3 = (ok4, s4)"
                by (cases "bd_kbd_bcache_attach e uuid dev ?s3")
              have n4: "no_kbd_error (err s4)" using att [of uuid dev] a4 by simp
              have "snd (snd ?r) = (if ok4 then s4
                      else g_prefix_error ''Failed to attach the cache to the backing device: '' s4)"
                using assms \<open>strrchr backing_device CHR ''/'' = Some dev_name0\<close> w \<open>ok2\<close> g r0 Cons Inr Some a4
                by (simp add: bd_kbd_bcache_create_def Let_def)
              then show ?thesis using n4 by simp
            qed
          qed
        qed
      qed
      then show ?thesis by auto
    qed
  qed
qed

lemma find_set_uuid_fst:
  "fst (find_set_uuid lines 0 False None) = (\<not> list_all (\<lambda>l. g_regex_match l = None) lines)"
proof (cases "list_all (\<lambda>l. g_regex_match l = None) lines")
  case True
  then show ?thesis by (simp add: find_set_uuid_None)
next
  case False
  then have "find (\<lambda>l. g_regex_match l \<noteq> None) lines \<noteq> None"
    by (auto simp add: find_None_iff list_all_iff)
  then obtain l where "find (\<lambda>l. g_regex_match l \<noteq> None) lines = Some l" by auto
  with False show ?thesis
    using find_set_uuid_drop [of lines 0 None] by simp
qed

lemma bcache_create_no_match:
  assumes "err s = None"
    and "bd_utils_exec_and_capture_output e (trace s)
           [''make-bcache'', ''-B'', backing_device, ''-C'', cache_device] = Inr output"
    and "list_all (\<lambda>l. g_regex_match l = None) (g_strsplit output)"
  shows "err (snd (snd (bd_kbd_bcache_create e backing_device cache_device s))) =
           Some (GError (Kbd BD_KBD_ERROR_BCACHE_PARSE) (''Failed to determine Set UUID from: '' @ output))"
  using assms find_set_uuid_None [OF assms(3)]
  by (simp add: bd_kbd_bcache_create_def)

subsection \<open>The lines and the pattern\<close>

lemma mem_by_code:
  "c \<in> set cs \<longleftrightarrow> (of_char c :: nat) \<in> set (map of_char cs)"
proof -
  have "inj (of_char :: char \<Rightarrow> nat)" by (rule injI) simp
  then show ?thesis by (simp add: inj_image_mem_iff)
qed

lemma lower_codes: "map of_char ''abcdefghijklmnopqrstuvwxyz'' = [97..<123::nat]"
  by (simp add: upt_rec)

lemma digit_codes: "map of_char ''0123456789'' = [48..<58::nat]"
  by (simp add: upt_rec)

lemma is_uuid_char_ranges:
  "is_uuid_char c \<longleftrightarrow>
     c = CHR ''-'' \<or> (97 \<le> (of_char c :: nat) \<and> of_char c \<le> (122 :: nat)) \<or>
     (48 \<le> (of_char c :: nat) \<and> of_char c \<le> (57 :: nat))"
proof -
  have "is_uuid_char c \<longleftrightarrow>
          c = CHR ''-'' \<or> c \<in> set ''abcdefghijklmnopqrstuvwxyz'' \<or> c \<in> set ''0123456789''"
    by (auto simp add: is_uuid_char_def)
  also have "c \<in> set ''abcdefghijklmnopqrstuvwxyz'' \<longleftrightarrow> (of_char c :: nat) \<in> set [97..<123]"
    by (simp only: mem_by_code [of c "''abcdefghijklmnopqrstuvwxyz''"] lower_codes)
  also have "c \<in> set ''0123456789'' \<longleftrightarrow> (of_char c :: nat) \<in> set [48..<58]"
    by (simp only: mem_by_code [of c "''0123456789''"] digit_codes)
  finally show ?thesis by (simp only: set_upt atLeastLessThan_iff) arith
qed

lemma spec_uuid_char_eq: "spec_uuid_char c = is_uuid_char c"
proof -
  have "c = CHR ''-'' \<longleftrightarrow> (of_char c :: nat) = 45"
    using mem_by_code [of c "''-''"] by simp
  then show ?thesis
    by (auto simp add: spec_uuid_char_def Let_def is_uuid_char_ranges)
qed

lemma space_codes: "map of_char [CHR 0x09, CHR 0x0A, CHR 0x0B, CHR 0x0C, CHR 0x0D] = [9..<14::nat]"
  by (simp add: upt_rec)

lemma spec_space_eq: "spec_space c = is_space c"
proof -
  have a: "c = CHR '' '' \<longleftrightarrow> (of_char c :: nat) = 32"
    using mem_by_code [of c "'' ''"] by simp
  have "c \<in> set [CHR 0x09, CHR 0x0A, CHR 0x0B, CHR 0x0C, CHR 0x0D] \<longleftrightarrow> (of_char c :: nat) \<in> set [9..<14]"
    by (simp only: mem_by_code [of c "[CHR 0x09, CHR 0x0A, CHR 0x0B, CHR 0x0C, CHR 0x0D]"] space_codes)
  then have b: "c \<in> set [CHR 0x09, CHR 0x0A, CHR 0x0B, CHR 0x0C, CHR 0x0D] \<longleftrightarrow>
                  9 \<le> (of_char c :: nat) \<and> (of_char c :: nat) \<le> 13"
    by (simp only: set_upt atLeastLessThan_iff) arith
  have "is_space c \<longleftrightarrow> c = CHR '' '' \<or> c \<in> set [CHR 0x09, CHR 0x0A, CHR 0x0B, CHR 0x0C, CHR 0x0D]"
    by (auto simp add: is_space_def)
  then show ?thesis
    by (simp only: a b spec_space_def Let_def)
qed

lemma match_here_spec: "(match_here s = Some grp) = spec_match_at s grp"
proof
  assume m: "match_here s = Some grp"
  define r where "r = drop 9 s"
  define ws where "ws = takeWhile is_space r"
  define rest where "rest = dropWhile is_uuid_char (dropWhile is_space r)"
  from m have p: "prefix ''Set UUID:'' s" and ne: "ws \<noteq> []" "grp \<noteq> []"
    and g: "grp = takeWhile is_uuid_char (dropWhile is_space r)"
    by (auto simp add: match_here_def Let_def r_def ws_def split: if_splits)
  from p obtain t where "s = ''Set UUID:'' @ t" by (auto simp add: prefix_def)
  then have s: "s = ''Set UUID:'' @ r" by (simp add: r_def)
  have r: "r = ws @ grp @ rest"
    by (simp add: ws_def g rest_def)
  have a: "list_all spec_space ws" "list_all spec_uuid_char grp"
    by (auto simp add: ws_def g list_all_iff spec_space_eq spec_uuid_char_eq dest: set_takeWhileD)
  have "rest = [] \<or> \<not> spec_uuid_char (hd rest)"
    unfolding rest_def spec_uuid_char_eq
    using hd_dropWhile [of is_uuid_char "dropWhile is_space r"] by blast
  with s r a ne show "spec_match_at s grp"
    unfolding spec_match_at_def by blast
next
  assume "spec_match_at s grp"
  then obtain ws rest where s: "s = ''Set UUID:'' @ ws @ grp @ rest" and ws: "ws \<noteq> []" "list_all is_space ws"
    and grp: "grp \<noteq> []" "list_all is_uuid_char grp" and rest: "rest = [] \<or> \<not> is_uuid_char (hd rest)"
    unfolding spec_match_at_def spec_space_eq [abs_def] spec_uuid_char_eq [abs_def] by blast
  from grp obtain g gs where g: "grp = g # gs" "is_uuid_char g" by (cases grp) auto
  have d: "drop 9 s = ws @ grp @ rest" by (simp add: s)
  have t1: "takeWhile is_space (ws @ grp @ rest) = ws"
    using ws g by (simp add: list_all_iff takeWhile_append2 uuid_char_not_space)
  have t2: "dropWhile is_space (ws @ grp @ rest) = grp @ rest"
    using ws g by (simp add: list_all_iff dropWhile_append2 uuid_char_not_space)
  have "takeWhile is_uuid_char rest = []"
    using rest by (cases rest) auto
  then have t3: "takeWhile is_uuid_char (grp @ rest) = grp"
    using grp by (simp add: list_all_iff takeWhile_append2)
  have "prefix ''Set UUID:'' s" by (simp add: s)
  then show "match_here s = Some grp"
    using d t1 t2 t3 ws grp by (simp add: match_here_def Let_def)
qed

lemma g_regex_match_spec: "(g_regex_match l = Some grp) = spec_leftmost_match l grp"
proof (induction l)
  case Nil
  have "\<not> spec_match_at [] grp" by (simp add: match_here_spec [symmetric] match_here_def)
  then show ?case
    by (simp add: spec_leftmost_match_def match_here_def)
next
  case (Cons c cs)
  show ?case
  proof (cases "match_here (c # cs)")
    case (Some g)
    have "spec_leftmost_match (c # cs) grp \<longleftrightarrow> grp = g"
    proof
      assume "spec_leftmost_match (c # cs) grp"
      then obtain pre s where ps: "c # cs = pre @ s" "spec_match_at s grp"
        and lm: "\<forall>p t g. c # cs = p @ t \<and> length p < length pre \<longrightarrow> \<not> spec_match_at t g"
        unfolding spec_leftmost_match_def by blast
      have "pre = []"
      proof (rule ccontr)
        assume "pre \<noteq> []"
        then have "c # cs = [] @ (c # cs) \<and> length ([] :: string) < length pre" by simp
        with lm have "\<not> spec_match_at (c # cs) g" by blast
        with Some show False by (simp add: match_here_spec)
      qed
      with ps have "match_here (c # cs) = Some grp" by (simp add: match_here_spec)
      with Some show "grp = g" by simp
    next
      assume "grp = g"
      with Some have "c # cs = [] @ (c # cs) \<and> spec_match_at (c # cs) grp \<and>
         (\<forall>p t g. c # cs = p @ t \<and> length p < length ([] :: string) \<longrightarrow> \<not> spec_match_at t g)"
        by (simp add: match_here_spec)
      then show "spec_leftmost_match (c # cs) grp"
        unfolding spec_leftmost_match_def by blast
    qed
    with Some show ?thesis by auto
  next
    case None
    then have nm: "\<And>g. \<not> spec_match_at (c # cs) g" by (simp add: match_here_spec [symmetric])
    have "spec_leftmost_match (c # cs) grp \<longleftrightarrow> spec_leftmost_match cs grp"
    proof
      assume "spec_leftmost_match (c # cs) grp"
      then obtain pre s where ps: "c # cs = pre @ s" "spec_match_at s grp"
        and lm: "\<forall>p t g. c # cs = p @ t \<and> length p < length pre \<longrightarrow> \<not> spec_match_at t g"
        unfolding spec_leftmost_match_def by blast
      from ps nm obtain pre' where pre: "pre = c # pre'" by (cases pre) auto
      with ps have cs: "cs = pre' @ s" by simp
      have "\<forall>p t g. cs = p @ t \<and> length p < length pre' \<longrightarrow> \<not> spec_match_at t g"
      proof (intro allI impI)
        fix p t g assume "cs = p @ t \<and> length p < length pre'"
        then have "c # cs = (c # p) @ t \<and> length (c # p) < length pre" using pre by simp
        with lm show "\<not> spec_match_at t g" by blast
      qed
      with cs ps(2) show "spec_leftmost_match cs grp"
        unfolding spec_leftmost_match_def by blast
    next
      assume "spec_leftmost_match cs grp"
      then obtain pre s where ps: "cs = pre @ s" "spec_match_at s grp"
        and lm: "\<forall>p t g. cs = p @ t \<and> length p < length pre \<longrightarrow> \<not> spec_match_at t g"
        unfolding spec_leftmost_match_def by blast
      have "\<forall>p t g. c # cs = p @ t \<and> length p < length (c # pre) \<longrightarrow> \<not> spec_match_at t g"
      proof (intro allI impI)
        fix p t g assume a: "c # cs = p @ t \<and> length p < length (c # pre)"
        show "\<not> spec_match_at t g"
        proof (cases p)
          case Nil
          with a nm show ?thesis by simp
        next
          case (Cons x p')
          with a have "cs = p' @ t \<and> length p' < length pre" by simp
          with lm show ?thesis by blast
        qed
      qed
      moreover have "c # cs = (c # pre) @ s" using ps by simp
      ultimately show "spec_leftmost_match (c # cs) grp"
        using ps(2) unfolding spec_leftmost_match_def by blast
    qed
    with None Cons.IH show ?thesis by simp
  qed
qed

lemma split_nl_spec:
  "split_nl s \<noteq> [] \<and> list_all (\<lambda>l. CHR 0x0A \<notin> set l) (split_nl s) \<and> spec_join_lines (split_nl s) = s"
proof (induction s)
  case Nil
  show ?case by simp
next
  case (Cons c cs)
  then obtain l ls where sp: "split_nl cs = l # ls" by (cases "split_nl cs") auto
  show ?case
  proof (cases "c = CHR 0x0A")
    case True
    with Cons sp show ?thesis by simp
  next
    case False
    with Cons sp show ?thesis by (cases ls) auto
  qed
qed

lemma g_strsplit_spec:
  "g_strsplit [] = [] \<and>
   (output \<noteq> [] \<longrightarrow>
      g_strsplit output \<noteq> [] \<and> list_all (\<lambda>l. CHR 0x0A \<notin> set l) (g_strsplit output) \<and>
      spec_join_lines (g_strsplit output) = output)"
  using split_nl_spec [of "output"] by (simp add: g_strsplit_def)

lemma find_split:
  "(find P xs = Some x) =
     (\<exists>before after. xs = before @ x # after \<and> P x \<and> list_all (\<lambda>b. \<not> P b) before)"
proof (induction xs)
  case Nil
  show ?case by simp
next
  case (Cons a xs)
  show ?case
  proof (cases "P a")
    case True
    have "(\<exists>before after. a # xs = before @ x # after \<and> P x \<and> list_all (\<lambda>b. \<not> P b) before) \<longleftrightarrow> x = a"
    proof
      assume "\<exists>before after. a # xs = before @ x # after \<and> P x \<and> list_all (\<lambda>b. \<not> P b) before"
      then obtain before after where h: "a # xs = before @ x # after" "list_all (\<lambda>b. \<not> P b) before"
        by blast
      with True show "x = a" by (cases before) auto
    next
      assume "x = a"
      with True have "a # xs = [] @ x # xs \<and> P x \<and> list_all (\<lambda>b. \<not> P b) []" by simp
      then show "\<exists>before after. a # xs = before @ x # after \<and> P x \<and> list_all (\<lambda>b. \<not> P b) before"
        by blast
    qed
    with True show ?thesis by auto
  next
    case False
    have "(\<exists>before after. a # xs = before @ x # after \<and> P x \<and> list_all (\<lambda>b. \<not> P b) before) \<longleftrightarrow>
          (\<exists>before after. xs = before @ x # after \<and> P x \<and> list_all (\<lambda>b. \<not> P b) before)"
    proof
      assume "\<exists>before after. a # xs = before @ x # after \<and> P x \<and> list_all (\<lambda>b. \<not> P b) before"
      then obtain before after where h: "a # xs = before @ x # after" "P x" "list_all (\<lambda>b. \<not> P b) before"
        by blast
      with False obtain before' where "before = a # before'" by (cases before) auto
      with h have "xs = before' @ x # after \<and> P x \<and> list_all (\<lambda>b. \<not> P b) before'" by simp
      then show "\<exists>before after. xs = before @ x # after \<and> P x \<and> list_all (\<lambda>b. \<not> P b) before"
        by blast
    next
      assume "\<exists>before after. xs = before @ x # after \<and> P x \<and> list_all (\<lambda>b. \<not> P b) before"
      then obtain before after where "xs = before @ x # after" "P x" "list_all (\<lambda>b. \<not> P b) before"
        by blast
      with False have "a # xs = (a # before) @ x # after \<and> P x \<and> list_all (\<lambda>b. \<not> P b) (a # before)"
        by simp
      then show "\<exists>before after. a # xs = before @ x # after \<and> P x \<and> list_all (\<lambda>b. \<not> P b) before"
        by blast
    qed
    with False Cons.IH show ?thesis by simp
  qed
qed

lemma g_regex_match_None_spec: "(g_regex_match l = None) = (\<forall>g. \<not> spec_leftmost_match l g)"
  using g_regex_match_spec [of l] by (cases "g_regex_match l") auto

lemma find_set_uuid_spec:
  "(find_set_uuid lines 0 False None = (True, Some grp)) =
     (\<exists>before l after. lines = before @ l # after \<and>
        list_all (\<lambda>b. \<forall>g. \<not> spec_leftmost_match b g) before \<and> spec_leftmost_match l grp)"
proof -
  let ?P = "\<lambda>l. g_regex_match l \<noteq> None"
  have "(find_set_uuid lines 0 False None = (True, Some grp)) =
          (\<exists>l. find ?P lines = Some l \<and> g_regex_match l = Some grp)"
    using find_set_uuid_drop [of lines 0 None] by (auto split: option.splits)
  also have "\<dots> = (\<exists>l before after. lines = before @ l # after \<and>
                      list_all (\<lambda>b. g_regex_match b = None) before \<and> g_regex_match l = Some grp)"
    by (auto simp add: find_split)
  also have "\<dots> = (\<exists>before l after. lines = before @ l # after \<and>
        list_all (\<lambda>b. \<forall>g. \<not> spec_leftmost_match b g) before \<and> spec_leftmost_match l grp)"
    unfolding g_regex_match_None_spec g_regex_match_spec by blast
  finally show ?thesis .
qed

text \<open>
  C8. The Set UUID parser of \<open>bd_kbd_bcache_create\<close>. The tool's output is split into its
  lines: no line holds a line feed and the lines joined with line feeds are the output
  (the empty output has no line). \<open>g_regex_match\<close> gives the group \<open>grp\<close> for a line
  exactly when the pattern \<open>Set UUID:\s+([-a-z0-9]+)\<close> matches the line leftmost with
  the group \<open>grp\<close>. The loop tries the lines in order: it ends with \<open>found\<close> and the
  group \<open>grp\<close> exactly when some line is matched with \<open>grp\<close> and no line before it is
  matched at all, and it ends without \<open>found\<close> exactly when no line is matched. And when
  the tool has succeeded (the error slot being empty at the start),
  \<open>bd_kbd_bcache_create\<close> ends with an error of the kind \<open>BD_KBD_ERROR_BCACHE_PARSE\<close>
  exactly when the pattern matches no line of the output.
\<close>

theorem set_uuid_first_matching_line:
  "(g_strsplit [] = [] \<and>
    (out \<noteq> [] \<longrightarrow>
       g_strsplit out \<noteq> [] \<and> list_all (\<lambda>l. CHR 0x0A \<notin> set l) (g_strsplit out) \<and>
       spec_join_lines (g_strsplit out) = out)) \<and>
   (g_regex_match l = Some grp) = spec_leftmost_match l grp \<and>
   find_set_uuid lines 0 False None =
     (case find (\<lambda>l. g_regex_match l \<noteq> None) lines of
        None \<Rightarrow> (False, None)
      | Some l \<Rightarrow> (True, g_regex_match l)) \<and>
   (\<not> fst (find_set_uuid lines 0 False None)) = list_all (\<lambda>l. g_regex_match l = None) lines \<and>
   (find_set_uuid lines 0 False None = (True, Some grp)) =
     (\<exists>before l after. lines = before @ l # after \<and>
        list_all (\<lambda>b. \<forall>g. \<not> spec_leftmost_match b g) before \<and> spec_leftmost_match l grp) \<and>
   (find_set_uuid lines 0 False None = (False, None)) =
     list_all (\<lambda>b. \<forall>g. \<not> spec_leftmost_match b g) lines \<and>
   (err s = None \<and>
    bd_utils_exec_and_capture_output e (trace s)
      [''make-bcache'', ''-B'', backing_device, ''-C'', cache_device] = Inr out \<longrightarrow>
      ((\<exists>msg. err (snd (snd (bd_kbd_bcache_create e backing_device cache_device s))) =
               Some (GError (Kbd BD_KBD_ERROR_BCACHE_PARSE) msg)) =
       list_all (\<lambda>l. g_regex_match l = None) (g_strsplit out)) \<and>
      ((\<exists>msg. err (snd (snd (bd_kbd_bcache_create e backing_device cache_device s))) =
               Some (GError (Kbd BD_KBD_ERROR_BCACHE_PARSE) msg)) =
       list_all (\<lambda>b. \<forall>g. \<not> spec_leftmost_match b g) (g_strsplit out)))"
proof (intro conjI impI)
  show "g_strsplit [] = []" by (simp add: g_strsplit_def)
next
  assume "out \<noteq> []"
  then show "g_strsplit out \<noteq> []" "list_all (\<lambda>l. CHR 0x0A \<notin> set l) (g_strsplit out)"
    "spec_join_lines (g_strsplit out) = out"
    using g_strsplit_spec [of "out"] by simp_all
next
  show "(g_regex_match l = Some grp) = spec_leftmost_match l grp"
    by (rule g_regex_match_spec)
next
  show "find_set_uuid lines 0 False None =
     (case find (\<lambda>l. g_regex_match l \<noteq> None) lines of
        None \<Rightarrow> (False, None)
      | Some l \<Rightarrow> (True, g_regex_match l))"
    using find_set_uuid_drop [of lines 0 None] by simp
next
  show "(\<not> fst (find_set_uuid lines 0 False None)) = list_all (\<lambda>l. g_regex_match l = None) lines"
    by (simp add: find_set_uuid_fst)
next
  show "(find_set_uuid lines 0 False None = (True, Some grp)) =
     (\<exists>before l after. lines = before @ l # after \<and>
        list_all (\<lambda>b. \<forall>g. \<not> spec_leftmost_match b g) before \<and> spec_leftmost_match l grp)"
    by (rule find_set_uuid_spec)
next
  have "(find_set_uuid lines 0 False None = (False, None)) = (\<not> fst (find_set_uuid lines 0 False None))"
    using find_set_uuid_drop [of lines 0 None] by (auto split: option.splits)
  then show "(find_set_uuid lines 0 False None = (False, None)) =
     list_all (\<lambda>b. \<forall>g. \<not> spec_leftmost_match b g) lines"
    by (simp add: find_set_uuid_fst g_regex_match_None_spec)
next
  assume h: "err s = None \<and>
    bd_utils_exec_and_capture_output e (trace s)
      [''make-bcache'', ''-B'', backing_device, ''-C'', cache_device] = Inr out"
  show a: "(\<exists>msg. err (snd (snd (bd_kbd_bcache_create e backing_device cache_device s))) =
               Some (GError (Kbd BD_KBD_ERROR_BCACHE_PARSE) msg)) =
      list_all (\<lambda>l. g_regex_match l = None) (g_strsplit out)"
  proof (cases "list_all (\<lambda>l. g_regex_match l = None) (g_strsplit out)")
    case True
    with h bcache_create_no_match [of s e backing_device cache_device "out"]
    show ?thesis by simp
  next
    case False
    then have "fst (find_set_uuid (g_strsplit out) 0 False None)"
      by (simp add: find_set_uuid_fst)
    then obtain su where "find_set_uuid (g_strsplit out) 0 False None = (True, su)"
      by (cases "find_set_uuid (g_strsplit out) 0 False None") simp
    with h False bcache_create_found_error [of s e backing_device cache_device "out" su]
    show ?thesis by simp
  qed
  show "(\<exists>msg. err (snd (snd (bd_kbd_bcache_create e backing_device cache_device s))) =
               Some (GError (Kbd BD_KBD_ERROR_BCACHE_PARSE) msg)) =
      list_all (\<lambda>b. \<forall>g. \<not> spec_leftmost_match b g) (g_strsplit out)"
    unfolding a by (simp add: g_regex_match_None_spec)
qed

theorem set_uuid_first_matching_line_witness:
  "spec_join_lines
     (g_strsplit (''UUID: 77\<newline>xx Set UUID:'' @ [CHR 0x09] @ '' 1234-deadbeef_z\<newline>Set UUID: ffff\<newline>'')) =
     ''UUID: 77\<newline>xx Set UUID:'' @ [CHR 0x09] @ '' 1234-deadbeef_z\<newline>Set UUID: ffff\<newline>'' \<and>
   g_strsplit (''UUID: 77\<newline>xx Set UUID:'' @ [CHR 0x09] @ '' 1234-deadbeef_z\<newline>Set UUID: ffff\<newline>'') =
     [''UUID: 77'', ''xx Set UUID:'' @ [CHR 0x09] @ '' 1234-deadbeef_z'', ''Set UUID: ffff'', []] \<and>
   spec_leftmost_match (''xx Set UUID:'' @ [CHR 0x09] @ '' 1234-deadbeef_z'') ''1234-deadbeef'' \<and>
   \<not> spec_leftmost_match ''Set UUID: abc'' ''ab'' \<and>
   find_set_uuid
     (g_strsplit (''UUID: 77\<newline>xx Set UUID:'' @ [CHR 0x09] @ '' 1234-deadbeef_z\<newline>Set UUID: ffff\<newline>''))
     0 False None = (True, Some ''1234-deadbeef'') \<and>
   list_all (\<lambda>b. \<forall>g. \<not> spec_leftmost_match b g) (g_strsplit ''Set UUID:\<newline>1234-deadbeef'') \<and>
   (\<exists>msg. err (snd (snd (bd_kbd_bcache_create env_no_uuid ''/dev/sdb1'' ''/dev/sdc1'' s_init))) =
           Some (GError (Kbd BD_KBD_ERROR_BCACHE_PARSE) msg)) \<and>
   \<not> (\<exists>msg. err (snd (snd (bd_kbd_bcache_create env_ok ''/dev/sdb1'' ''/dev/sdc1'' s_init))) =
           Some (GError (Kbd BD_KBD_ERROR_BCACHE_PARSE) msg))"
proof -
  note t = set_uuid_first_matching_line
  let ?out = "''UUID: 77\<newline>xx Set UUID:'' @ [CHR 0x09] @ '' 1234-deadbeef_z\<newline>Set UUID: ffff\<newline>''"
  let ?line = "''xx Set UUID:'' @ [CHR 0x09] @ '' 1234-deadbeef_z''"
  have ne: "?out \<noteq> []" by simp
  have sp: "g_strsplit ?out = [''UUID: 77'', ?line, ''Set UUID: ffff'', []]"
    by (simp add: g_strsplit_def)
  have 1: "spec_join_lines (g_strsplit ?out) = ?out"
    using t [where out = ?out] ne by blast
  have m: "g_regex_match ?line = Some ''1234-deadbeef''"
    by (simp add: match_here_def is_space_def is_uuid_char_def)
  have 2: "spec_leftmost_match ?line ''1234-deadbeef''"
    using t [where l = ?line and grp = "''1234-deadbeef''"] m by blast
  have m': "g_regex_match ''Set UUID: abc'' \<noteq> Some ''ab''"
    by (simp add: match_here_def is_space_def is_uuid_char_def)
  have 3: "\<not> spec_leftmost_match ''Set UUID: abc'' ''ab''"
    using t [where l = "''Set UUID: abc''" and grp = "''ab''"] m' by blast
  have f: "find (\<lambda>l. g_regex_match l \<noteq> None) (g_strsplit ?out) = Some ?line"
    unfolding sp by (simp add: match_here_def is_space_def is_uuid_char_def)
  have c3: "find_set_uuid (g_strsplit ?out) 0 False None =
     (case find (\<lambda>l. g_regex_match l \<noteq> None) (g_strsplit ?out) of
        None \<Rightarrow> (False, None)
      | Some l \<Rightarrow> (True, g_regex_match l))"
    using t [where lines = "g_strsplit ?out"] by blast
  have 4: "find_set_uuid (g_strsplit ?out) 0 False None = (True, Some ''1234-deadbeef'')"
    unfolding c3 f by (simp only: option.case m)
  have "find_set_uuid (g_strsplit ''Set UUID:\<newline>1234-deadbeef'') 0 False None = (False, None)"
    by (simp add: g_strsplit_def find_set_uuid.simps match_here_def is_space_def is_uuid_char_def)
  then have 5: "list_all (\<lambda>b. \<forall>g. \<not> spec_leftmost_match b g) (g_strsplit ''Set UUID:\<newline>1234-deadbeef'')"
    using t [where lines = "g_strsplit ''Set UUID:\<newline>1234-deadbeef''"] by blast
  have h1: "err s_init = None \<and>
    bd_utils_exec_and_capture_output env_no_uuid (trace s_init)
      [''make-bcache'', ''-B'', ''/dev/sdb1'', ''-C'', ''/dev/sdc1''] = Inr ''UUID: 77\<newline>Set UUID:\<newline>''"
    by (simp add: s_init_def env_no_uuid_def env_ok_def)
  have h2: "err s_init = None \<and>
    bd_utils_exec_and_capture_output env_ok (trace s_init)
      [''make-bcache'', ''-B'', ''/dev/sdb1'', ''-C'', ''/dev/sdc1''] =
      Inr ''UUID: 77\<newline>Set UUID:  1234-deadbeef\<newline>''"
    by (simp add: s_init_def env_ok_def)
  have n1: "list_all (\<lambda>l. g_regex_match l = None) (g_strsplit ''UUID: 77\<newline>Set UUID:\<newline>'')"
    by (simp add: g_strsplit_def match_here_def)
  have n2: "\<not> list_all (\<lambda>l. g_regex_match l = None) (g_strsplit ''UUID: 77\<newline>Set UUID:  1234-deadbeef\<newline>'')"
    by (simp add: g_strsplit_def match_here_def is_space_def is_uuid_char_def)
  have 6: "\<exists>msg. err (snd (snd (bd_kbd_bcache_create env_no_uuid ''/dev/sdb1'' ''/dev/sdc1'' s_init))) =
           Some (GError (Kbd BD_KBD_ERROR_BCACHE_PARSE) msg)"
    using t [where s = s_init and e = env_no_uuid and backing_device = "''/dev/sdb1''"
        and cache_device = "''/dev/sdc1''" and out = "''UUID: 77\<newline>Set UUID:\<newline>''"] h1 n1
    by blast
  have 7: "\<not> (\<exists>msg. err (snd (snd (bd_kbd_bcache_create env_ok ''/dev/sdb1'' ''/dev/sdc1'' s_init))) =
           Some (GError (Kbd BD_KBD_ERROR_BCACHE_PARSE) msg))"
    using t [where s = s_init and e = env_ok and backing_device = "''/dev/sdb1''"
        and cache_device = "''/dev/sdc1''" and out = "''UUID: 77\<newline>Set UUID:  1234-deadbeef\<newline>''"] h2 n2
    by blast
  from 1 sp 2 3 4 5 6 7 show ?thesis by blast
qed

subsection \<open>Failures and the error slot\<close>

text \<open>
  Every \<open>FALSE\<close> of the zram operations and of attach, detach and destroy comes with an
  error in the slot. \<open>bd_kbd_bcache_create\<close> is the exception: it can return \<open>FALSE\<close>
  with an empty slot, and only when the backing device holds no slash or when the
  slashes of the first matched path run out (lines 328 and 358).
\<close>

lemma load_kernel_module_fail_populated:
  "\<not> fst (load_kernel_module e m opts s) \<Longrightarrow> err (snd (load_kernel_module e m opts s)) \<noteq> None"
  by (auto simp add: load_kernel_module_def Let_def split: if_splits option.splits)

lemma unload_kernel_module_fail_populated:
  "\<not> fst (unload_kernel_module e m s) \<Longrightarrow> err (snd (unload_kernel_module e m s)) \<noteq> None"
  by (auto simp add: unload_kernel_module_def Let_def split: if_splits option.splits prod.splits)

lemma g_prefix_error_populated: "err s \<noteq> None \<Longrightarrow> err (g_prefix_error p s) \<noteq> None"
  by auto

lemma zram_load_module_fail_populated:
  assumes "fst (zram_load_module e n s) = Some False"
  shows "err (snd (zram_load_module e n s)) \<noteq> None"
proof -
  define opts where "opts = ''num_devices='' @ dec (unat n)"
  obtain ok1 s1 where l1: "load_kernel_module e ''zram'' opts s = (ok1, s1)"
    by (cases "load_kernel_module e ''zram'' opts s")
  obtain ok2 s2 where u: "unload_kernel_module e ''zram'' (g_clear_error s1) = (ok2, s2)"
    by (cases "unload_kernel_module e ''zram'' (g_clear_error s1)")
  obtain ok3 s3 where l2: "load_kernel_module e ''zram'' opts s2 = (ok3, s3)"
    by (cases "load_kernel_module e ''zram'' opts s2")
  have p1: "\<not> ok1 \<Longrightarrow> err s1 \<noteq> None"
    using load_kernel_module_fail_populated [of e "''zram''" opts s] l1 by simp
  have p2: "\<not> ok2 \<Longrightarrow> err s2 \<noteq> None"
    using unload_kernel_module_fail_populated [of e "''zram''" "g_clear_error s1"] u by simp
  have p3: "\<not> ok3 \<Longrightarrow> err s3 \<noteq> None"
    using load_kernel_module_fail_populated [of e "''zram''" opts s2] l2 by simp
  show ?thesis
    using assms l1 u l2 p1 p2 p3
    by (auto simp add: zram_load_module_def opts_def Let_def split: if_splits)
qed

lemma zram_streams_loop_fail_populated:
  "fst (zram_streams_loop e ns n i s) = Ret False \<Longrightarrow> err (snd (zram_streams_loop e ns n i s)) \<noteq> None"
proof (induction e ns n i s rule: zram_streams_loop.induct)
  case (1 e ns n i s)
  show ?case
  proof (cases "i < n \<and> i < length ns")
    case False
    with "1.prems" show ?thesis by (subst (asm) zram_streams_loop.simps) (auto split: if_splits)
  next
    case True
    obtain ok s' where w: "echo_str_to_file e (dec (unat (ns ! i))) (zram_streams_path i) s = (ok, s')"
      by (cases "echo_str_to_file e (dec (unat (ns ! i))) (zram_streams_path i) s")
    show ?thesis
    proof (cases ok)
      case False
      then have "err s' \<noteq> None"
        using echo_fail_err [of e "dec (unat (ns ! i))" "zram_streams_path i" s] w by simp
      with True w False show ?thesis by (subst zram_streams_loop.simps) auto
    next
      case ok: True
      have eq: "zram_streams_loop e ns n i s = zram_streams_loop e ns n (i + 1) s'"
        using True w ok by (subst zram_streams_loop.simps) simp
      with "1.IH" [of ok s'] "1.prems" True w ok show ?thesis by simp
    qed
  qed
qed

lemma zram_sizes_loop_fail_populated:
  "fst (zram_sizes_loop e sizes n i s) = Ret False \<Longrightarrow> err (snd (zram_sizes_loop e sizes n i s)) \<noteq> None"
proof (induction e sizes n i s rule: zram_sizes_loop.induct)
  case (1 e sizes n i s)
  show ?case
  proof (cases "i < n \<and> i < length sizes")
    case False
    with "1.prems" show ?thesis by (subst (asm) zram_sizes_loop.simps) (auto split: if_splits)
  next
    case True
    obtain ok s' where w: "echo_str_to_file e (dec (unat (sizes ! i))) (zram_disksize_path i) s = (ok, s')"
      by (cases "echo_str_to_file e (dec (unat (sizes ! i))) (zram_disksize_path i) s")
    show ?thesis
    proof (cases ok)
      case False
      then have "err s' \<noteq> None"
        using echo_fail_err [of e "dec (unat (sizes ! i))" "zram_disksize_path i" s] w by simp
      with True w False show ?thesis by (subst zram_sizes_loop.simps) auto
    next
      case ok: True
      have eq: "zram_sizes_loop e sizes n i s = zram_sizes_loop e sizes n (i + 1) s'"
        using True w ok by (subst zram_sizes_loop.simps) simp
      with "1.IH" [of ok s'] "1.prems" True w ok show ?thesis by simp
    qed
  qed
qed

lemma zram_create_devices_fail_populated:
  assumes "fst (bd_kbd_zram_create_devices e n sizes nstreams s) = Ret False"
  shows "err (snd (bd_kbd_zram_create_devices e n sizes nstreams s)) \<noteq> None"
proof -
  obtain r s4 where m: "zram_load_module e n s = (r, s4)"
    by (cases "zram_load_module e n s")
  show ?thesis
  proof (cases r)
    case (Some b)
    with assms m have "b = False" by (simp add: bd_kbd_zram_create_devices_def)
    with Some m zram_load_module_fail_populated [of e n s] show ?thesis
      by (simp add: bd_kbd_zram_create_devices_def)
  next
    case None
    define p where "p = (case nstreams of Some ns \<Rightarrow> zram_streams_loop e ns (unat n) 0 s4 | None \<Rightarrow> (Ret True, s4))"
    have pf: "fst p = Ret False \<Longrightarrow> err (snd p) \<noteq> None"
      using zram_streams_loop_fail_populated [of e _ "unat n" 0 s4]
      by (cases nstreams) (simp_all add: p_def)
    have "zram_set_devices e n sizes nstreams s4 =
               (if fst p = Ret True then zram_sizes_loop e sizes (unat n) 0 (snd p) else p)"
      unfolding zram_set_devices_def p_def [symmetric]
      by (cases p) (simp split: outcome.splits bool.splits)
    then have r: "bd_kbd_zram_create_devices e n sizes nstreams s =
               (if fst p = Ret True then zram_sizes_loop e sizes (unat n) 0 (snd p) else p)"
      using None m by (simp add: bd_kbd_zram_create_devices_def)
    show ?thesis
    proof (cases "fst p = Ret True")
      case True
      with r assms zram_sizes_loop_fail_populated [of e sizes "unat n" 0 "snd p"] show ?thesis by simp
    next
      case False
      with r assms pf show ?thesis by simp
    qed
  qed
qed

lemma zram_destroy_devices_fail_populated:
  "\<not> fst (bd_kbd_zram_destroy_devices e s) \<Longrightarrow> err (snd (bd_kbd_zram_destroy_devices e s)) \<noteq> None"
  by (simp add: bd_kbd_zram_destroy_devices_def unload_kernel_module_fail_populated)

lemma bcache_attach_fail_populated:
  "\<not> fst (bd_kbd_bcache_attach e u d s) \<Longrightarrow> err (snd (bd_kbd_bcache_attach e u d s)) \<noteq> None"
  by (simp add: bd_kbd_bcache_attach_def echo_fail_err)

lemma bcache_detach_fail_populated:
  assumes "\<not> fst (bd_kbd_bcache_detach e d s)"
  shows "err (snd (snd (bd_kbd_bcache_detach e d s))) \<noteq> None"
proof -
  let ?cache = "''/sys/block/'' @ strip_dev d @ ''/bcache/cache''"
  let ?s2 = "do_call (G_file_read_link ?cache) (do_call (Access ?cache) s)"
  have w: "\<And>u. \<not> fst (echo_str_to_file e u (''/sys/block/'' @ strip_dev d @ ''/bcache/detach'') ?s2) \<Longrightarrow>
     err (snd (echo_str_to_file e u (''/sys/block/'' @ strip_dev d @ ''/bcache/detach'') ?s2)) \<noteq> None"
    by (rule echo_fail_err)
  show ?thesis
    using assms w
    by (auto simp add: bd_kbd_bcache_detach_def Let_def
        split: if_splits sum.splits option.splits prod.splits)
qed

lemma bcache_destroy_fail_populated:
  assumes "\<not> fst (bd_kbd_bcache_destroy e d s)"
  shows "err (snd (bd_kbd_bcache_destroy e d s)) \<noteq> None"
proof -
  obtain ok1 cu s1 where dt: "bd_kbd_bcache_detach e (strip_dev d) s = (ok1, cu, s1)"
    by (cases "bd_kbd_bcache_detach e (strip_dev d) s")
  show ?thesis
  proof (cases ok1)
    case False
    with dt bcache_detach_fail_populated [of e "strip_dev d" s] show ?thesis
      by (simp add: bd_kbd_bcache_destroy_def)
  next
    case True
    let ?p1 = "''/sys/fs/bcache/'' @ (case cu of None \<Rightarrow> ''(null)'' | Some u \<Rightarrow> u) @ ''/stop''"
    obtain ok2 s2 where w1: "echo_str_to_file e ''1'' ?p1 s1 = (ok2, s2)"
      by (cases "echo_str_to_file e ''1'' ?p1 s1")
    obtain ok3 s3 where w2: "echo_str_to_file e ''1'' (''/sys/block/'' @ strip_dev d @ ''/bcache/stop'') s2 = (ok3, s3)"
      by (cases "echo_str_to_file e ''1'' (''/sys/block/'' @ strip_dev d @ ''/bcache/stop'') s2")
    have f2: "\<not> ok2 \<Longrightarrow> err s2 \<noteq> None"
      using echo_fail_err [of e "''1''" ?p1 s1] w1 by simp
    have f3: "\<not> ok3 \<Longrightarrow> err s3 \<noteq> None"
      using echo_fail_err [of e "''1''" "''/sys/block/'' @ strip_dev d @ ''/bcache/stop''" s2] w2 by simp
    show ?thesis
      using assms dt True w1 w2 f2 f3
      by (auto simp add: bd_kbd_bcache_destroy_def Let_def split: if_splits)
  qed
qed

lemma bcache_create_fail_unpopulated:
  assumes "fst (bd_kbd_bcache_create e backing_device cache_device s) = Ret False"
    and "err (snd (snd (bd_kbd_bcache_create e backing_device cache_device s))) = None"
  shows "CHR ''/'' \<notin> set backing_device \<or>
         (\<exists>t pattern path others. glob e t pattern = (0, path # others) \<and>
                                  path_dev_name path = Inl (Ret False))"
proof -
  let ?argv = "[''make-bcache'', ''-B'', backing_device, ''-C'', cache_device]"
  let ?s1 = "do_call (Bd_utils_exec_and_capture_output ?argv) s"
  let ?r = "bd_kbd_bcache_create e backing_device cache_device s"
  show ?thesis
  proof (cases "bd_utils_exec_and_capture_output e (trace s) ?argv")
    case (Inl ge)
    then have "snd (snd ?r) = g_propagate_error (foreign ge) ?s1"
      by (simp add: bd_kbd_bcache_create_def)
    with assms(2) show ?thesis by (simp split: option.splits)
  next
    case (Inr out)
    obtain found su where f: "find_set_uuid (g_strsplit out) 0 False None = (found, su)"
      by (cases "find_set_uuid (g_strsplit out) 0 False None")
    show ?thesis
    proof (cases found)
      case False
      then have "snd (snd ?r) = g_set_error BD_KBD_ERROR_BCACHE_PARSE
                   (''Failed to determine Set UUID from: '' @ out) ?s1"
        using Inr f by (simp add: bd_kbd_bcache_create_def)
      with assms(2) show ?thesis by (simp split: option.splits)
    next
      case found: True
      show ?thesis
      proof (cases "strrchr backing_device CHR ''/''")
        case None
        then show ?thesis by (simp add: strrchr_None)
      next
        case (Some dev_name0)
        obtain ok2 s2 where w: "echo_str_to_file e backing_device ''/sys/fs/bcache/register'' ?s1 = (ok2, s2)"
          by (cases "echo_str_to_file e backing_device ''/sys/fs/bcache/register'' ?s1")
        show ?thesis
        proof (cases ok2)
          case False
          then have "err s2 \<noteq> None"
            using echo_fail_err [of e backing_device "''/sys/fs/bcache/register''" ?s1] w by simp
          moreover have "snd (snd ?r) = s2"
            using Inr f found Some w False by (simp add: bd_kbd_bcache_create_def)
          ultimately show ?thesis using assms(2) by simp
        next
          case ok2: True
          let ?pattern = "''/sys/block/*/slaves/'' @ tl dev_name0"
          let ?s3 = "do_call (Glob ?pattern) s2"
          obtain ret gl_pathv where g: "glob e (trace s2) ?pattern = (ret, gl_pathv)"
            by (cases "glob e (trace s2) ?pattern")
          show ?thesis
          proof (cases "ret \<noteq> 0")
            case True
            then have "snd (snd ?r) = g_set_error BD_KBD_ERROR_BCACHE_SETUP_FAIL
                     (''Failed to determine bcache device name for '' @ sq @ tl dev_name0 @ sq) ?s3"
              using Inr f found Some w ok2 g by (simp add: bd_kbd_bcache_create_def Let_def)
            with assms(2) show ?thesis by (simp split: option.splits)
          next
            case r0: False
            show ?thesis
            proof (cases gl_pathv)
              case Nil
              then have "fst ?r = UB"
                using Inr f found Some w ok2 g r0 by (simp add: bd_kbd_bcache_create_def Let_def)
              with assms(1) show ?thesis by simp
            next
              case (Cons path others)
              show ?thesis
              proof (cases "path_dev_name path")
                case (Inl r)
                then have "fst ?r = r"
                  using Inr f found Some w ok2 g r0 Cons by (simp add: bd_kbd_bcache_create_def Let_def)
                with assms(1) Inl g r0 Cons show ?thesis by auto
              next
                case dev: (Inr dev)
                show ?thesis
                proof (cases su)
                  case None
                  then have "fst ?r = UB"
                    using Inr f found Some w ok2 g r0 Cons dev by (simp add: bd_kbd_bcache_create_def Let_def)
                  with assms(1) show ?thesis by simp
                next
                  case uu: (Some uuid)
                  obtain ok4 s4 where a4: "bd_kbd_bcache_attach e uuid dev ?s3 = (ok4, s4)"
                    by (cases "bd_kbd_bcache_attach e uuid dev ?s3")
                  have r4: "?r = (if ok4 then (Ret True, Some dev, s4)
                          else (Ret False, None,
                                g_prefix_error ''Failed to attach the cache to the backing device: '' s4))"
                    using Inr f found Some w ok2 g r0 Cons dev uu a4
                    by (simp add: bd_kbd_bcache_create_def Let_def)
                  with assms(1) have n4: "\<not> ok4" by (auto split: if_splits)
                  then have "err s4 \<noteq> None"
                    using bcache_attach_fail_populated [of e uuid dev ?s3] a4 by simp
                  with r4 n4 assms(2) show ?thesis by (auto split: option.splits)
                qed
              qed
            qed
          qed
        qed
      qed
    qed
  qed
qed

text \<open>
  C1. A \<open>FALSE\<close> of \<open>bd_kbd_bcache_create\<close> that leaves the error slot empty. The tool
  has printed a Set UUID and the backing device is \<open>sdb1\<close>, a name with no slash: the
  function returns \<open>FALSE\<close> at line 328, having made no call but the run of the tool, and
  the slot is as empty as it was at the start, whereas the comment of line 327 says that
  the error is populated.
\<close>

theorem bcache_create_no_slash_error_unset:
  "bd_kbd_bcache_create env_ok ''sdb1'' ''/dev/sdc1'' s_init =
     (Ret False, None,
      \<lparr>trace = [Bd_utils_exec_and_capture_output [''make-bcache'', ''-B'', ''sdb1'', ''-C'', ''/dev/sdc1'']],
       err = None\<rparr>)"
proof -
  have x: "bd_utils_exec_and_capture_output env_ok (trace s_init)
             [''make-bcache'', ''-B'', ''sdb1'', ''-C'', ''/dev/sdc1''] =
           Inr ''UUID: 77\<newline>Set UUID:  1234-deadbeef\<newline>''"
    by (simp add: env_ok_def)
  have n: "CHR ''/'' \<notin> set ''sdb1''" by simp
  show ?thesis
    unfolding bcache_create_no_slash [OF x find_set_uuid_env_ok n]
    by (simp add: do_call_def s_init_def)
qed

text \<open>
  What \<open>bd_kbd_bcache_detach\<close> does from an empty error slot, case by case. A write to
  the detach file that fails leaves the error of the writer, a foreign one, in the slot.
\<close>

lemma echo_fail_foreign:
  assumes "err s = None" and "\<not> fst (echo_str_to_file e str p s)"
  shows "\<exists>d c m. err (snd (echo_str_to_file e str p s)) = Some (GError (Foreign d c) m)"
proof -
  from echo_fail_err [OF assms(2)] obtain g where g: "err (snd (echo_str_to_file e str p s)) = Some g"
    by auto
  with echo_no_kbd_error [OF assms(1), of e str p] show ?thesis
    by (cases g) (auto simp add: no_kbd_error_def split: error_kind.splits)
qed

lemma bcache_detach_cases:
  assumes "err s = None"
  shows "(let dev = strip_dev bcache_device;
              cache = ''/sys/block/'' @ dev @ ''/bcache/cache'';
              detach = ''/sys/block/'' @ dev @ ''/bcache/detach'';
              s1 = do_call (Access cache) s;
              s2 = do_call (G_file_read_link cache) s1;
              r = bd_kbd_bcache_detach e bcache_device s
          in (access e (trace s) cache \<noteq> 0 \<longrightarrow>
                r = (False, None,
                     \<lparr>trace = trace s @ [Access cache],
                      err = Some (GError (Kbd BD_KBD_ERROR_BCACHE_NOT_ATTACHED)
                              (''No cache attached to '' @ sq @ dev @ sq @ '' or '' @ sq @ dev @ sq @
                               '' not set up''))\<rparr>)) \<and>
             (access e (trace s) cache = 0 \<longrightarrow>
                (\<forall>link. g_file_read_link e (trace s1) cache = Inr link \<and> CHR ''/'' \<notin> set link \<longrightarrow>
                   r = (False, None,
                        \<lparr>trace = trace s @ [Access cache, G_file_read_link cache],
                         err = Some (GError (Kbd BD_KBD_ERROR_BCACHE_UUID)
                                 (''Failed to determine cache set UUID for '' @ sq @ dev @ sq))\<rparr>)) \<and>
                (\<forall>target uuid.
                   g_file_read_link e (trace s1) cache = Inr (target @ ''/'' @ uuid) \<and>
                   CHR ''/'' \<notin> set uuid \<longrightarrow>
                     (let w = echo_str_to_file e uuid detach s2
                      in (fst w \<longrightarrow> r = (True, Some uuid, snd w)) \<and>
                         (\<not> fst w \<longrightarrow> r = (False, None, snd w) \<and>
                            (\<exists>d c m. err (snd w) = Some (GError (Foreign d c) m)))))))"
proof -
  define dev where "dev = strip_dev bcache_device"
  define cache where "cache = ''/sys/block/'' @ dev @ ''/bcache/cache''"
  define detach where "detach = ''/sys/block/'' @ dev @ ''/bcache/detach''"
  define s1 where "s1 = do_call (Access cache) s"
  define s2 where "s2 = do_call (G_file_read_link cache) s1"
  define r where "r = bd_kbd_bcache_detach e bcache_device s"
  have e2: "err s2 = None" using assms by (simp add: s2_def s1_def)
  have a: "access e (trace s) cache \<noteq> 0 \<longrightarrow>
                r = (False, None,
                     \<lparr>trace = trace s @ [Access cache],
                      err = Some (GError (Kbd BD_KBD_ERROR_BCACHE_NOT_ATTACHED)
                              (''No cache attached to '' @ sq @ dev @ sq @ '' or '' @ sq @ dev @ sq @
                               '' not set up''))\<rparr>)"
    using assms
    by (simp add: r_def bd_kbd_bcache_detach_def Let_def dev_def cache_def state_eqI)
  have b: "access e (trace s) cache = 0 \<Longrightarrow> g_file_read_link e (trace s1) cache = Inr link \<Longrightarrow>
             CHR ''/'' \<notin> set link \<Longrightarrow>
                   r = (False, None,
                        \<lparr>trace = trace s @ [Access cache, G_file_read_link cache],
                         err = Some (GError (Kbd BD_KBD_ERROR_BCACHE_UUID)
                                 (''Failed to determine cache set UUID for '' @ sq @ dev @ sq))\<rparr>)" for link
    using assms
    by (simp add: r_def bd_kbd_bcache_detach_def Let_def dev_def cache_def s1_def strrchr_notin state_eqI)
  have c: "access e (trace s) cache = 0 \<Longrightarrow>
           g_file_read_link e (trace s1) cache = Inr (target @ ''/'' @ uuid) \<Longrightarrow>
           CHR ''/'' \<notin> set uuid \<Longrightarrow>
             (let w = echo_str_to_file e uuid detach s2
                      in (fst w \<longrightarrow> r = (True, Some uuid, snd w)) \<and>
                         (\<not> fst w \<longrightarrow> r = (False, None, snd w) \<and>
                            (\<exists>d c m. err (snd w) = Some (GError (Foreign d c) m))))" for target uuid
  proof -
    assume h: "access e (trace s) cache = 0"
      "g_file_read_link e (trace s1) cache = Inr (target @ ''/'' @ uuid)" "CHR ''/'' \<notin> set uuid"
    obtain ok s3 where w: "echo_str_to_file e uuid detach s2 = (ok, s3)"
      by (cases "echo_str_to_file e uuid detach s2")
    have sr: "strrchr (target @ ''/'' @ uuid) CHR ''/'' = Some (''/'' @ uuid)"
      using h(3) by (simp add: strrchr_append)
    show ?thesis
    proof (cases ok)
      case True
      then have "r = (True, Some uuid, s3)"
        using h w sr
        by (simp add: r_def bd_kbd_bcache_detach_def Let_def dev_def cache_def detach_def s1_def s2_def)
      with w True show ?thesis by simp
    next
      case False
      then have f: "\<exists>d c m. err s3 = Some (GError (Foreign d c) m)"
        using echo_fail_foreign [OF e2, of e uuid detach] w by simp
      then have "err s3 \<noteq> None" by auto
      then have "r = (False, None, s3)"
        using h w sr False
        by (simp add: r_def bd_kbd_bcache_detach_def Let_def dev_def cache_def detach_def s1_def s2_def
            g_set_error_set)
      with w False f show ?thesis by simp
    qed
  qed
  show ?thesis
    unfolding Let_def
    using a b c
    unfolding dev_def cache_def detach_def s1_def s2_def r_def Let_def
    by blast
qed

text \<open>
  C6. A write to the detach file that fails, and the error \<open>bd_kbd_bcache_detach\<close> then
  returns. The cache link of \<open>bcache0\<close> is readable and points to the cache set \<open>abcd\<close>,
  and the detach file cannot be opened: \<open>echo_str_to_file\<close> has stored GLib's file error,
  so the \<open>g_set_error\<close> of line 452 finds the slot taken and stores nothing. The function
  returns \<open>FALSE\<close> with the file error behind the writer's prefix, not with an error
  of the kind \<open>BD_KBD_ERROR_BCACHE_DETACH_FAIL\<close>.
\<close>

theorem bcache_detach_write_failure_kind:
  "bd_kbd_bcache_detach env_no_open ''bcache0'' s_init =
     (False, None,
      \<lparr>trace = [Access ''/sys/block/bcache0/bcache/cache'',
                G_file_read_link ''/sys/block/bcache0/bcache/cache'',
                G_io_channel_new_file ''/sys/block/bcache0/bcache/detach''],
       err = Some (GError (Foreign ''g-file-error-quark'' 2)
                     (''Failed to write '' @ sq @ ''abcd'' @ sq @ '' to file '' @ sq @
                      ''/sys/block/bcache0/bcache/detach'' @ sq @ '': Permission denied''))\<rparr>)"
  by (simp add: bd_kbd_bcache_detach_def strip_dev_def env_no_open_def env_ok_def s_init_def
      echo_str_to_file_def do_call_def Let_def g_prefix_error_def g_propagate_error_def g_set_error_def)

end
